theory Spec2Isabelle
  imports Complex_Main "HOL-Library.AList"
begin

section \<open>JavaScript numbers\<close>

text \<open>
  A JavaScript number is modelled by its real value, with \<open>NaN\<close> kept apart.
  Rounding to binary64, signed zero and the two infinities are left out: no operation
  below produces them from the configured sensors. \<open>Math.random()\<close> is an argument
  \<open>r\<close> of the functions that draw it; the source guarantees \<open>0 \<le> r < 1\<close>.
\<close>

datatype number = NaN | Num real

text \<open>The relational operator \<open>a > b\<close>: false as soon as one side is \<open>NaN\<close>.\<close>

fun js_gt :: "number \<Rightarrow> number \<Rightarrow> bool" where
  "js_gt (Num a) (Num b) = (b < a)"
| "js_gt _ _ = False"

fun js_lt :: "number \<Rightarrow> number \<Rightarrow> bool" where
  "js_lt (Num a) (Num b) = (a < b)"
| "js_lt _ _ = False"

fun js_add :: "number \<Rightarrow> number \<Rightarrow> number" where
  "js_add (Num a) (Num b) = Num (a + b)"
| "js_add _ _ = NaN"

fun js_sub :: "number \<Rightarrow> number \<Rightarrow> number" where
  "js_sub (Num a) (Num b) = Num (a - b)"
| "js_sub _ _ = NaN"

fun js_mul :: "number \<Rightarrow> number \<Rightarrow> number" where
  "js_mul (Num a) (Num b) = Num (a * b)"
| "js_mul _ _ = NaN"

text \<open>
  Division: the only divisor in the modelled code is the literal \<open>1e14\<close>. A zero
  divisor gives an infinity or \<open>NaN\<close> in JavaScript; the model has no infinity and
  answers \<open>NaN\<close> there.
\<close>

fun js_div :: "number \<Rightarrow> number \<Rightarrow> number" where
  "js_div (Num a) (Num b) = (if b = 0 then NaN else Num (a / b))"
| "js_div _ _ = NaN"

fun js_floor :: "number \<Rightarrow> number" where
  "js_floor (Num a) = Num (of_int \<lfloor>a\<rfloor>)"
| "js_floor NaN = NaN"

fun js_max :: "number \<Rightarrow> number \<Rightarrow> number" where
  "js_max (Num a) (Num b) = Num (max a b)"
| "js_max _ _ = NaN"

fun js_min :: "number \<Rightarrow> number \<Rightarrow> number" where
  "js_min (Num a) (Num b) = Num (min a b)"
| "js_min _ _ = NaN"

text \<open>
  An optional numeric property of an object literal: \<open>None\<close> is the absent property,
  which reads as \<open>undefined\<close>. \<open>toNumber\<close> is the conversion a comparison or a
  product applies to it; \<open>truthy\<close> is the test \<open>x && ...\<close> makes.
\<close>

fun toNumber :: "number option \<Rightarrow> number" where
  "toNumber None = NaN"
| "toNumber (Some n) = n"

fun truthy :: "number option \<Rightarrow> bool" where
  "truthy None = False"
| "truthy (Some NaN) = False"
| "truthy (Some (Num x)) = (x \<noteq> 0)"

text \<open>
  \<open>parseFloat(x.toFixed(1))\<close>: the number with one decimal nearest to \<open>x\<close>, the
  larger one on a tie, the sign handled apart (ECMAScript, Number.prototype.toFixed).
  From \<open>1e21\<close> on \<open>toFixed\<close> prints the number itself.
\<close>

definition toFixed1 :: "real \<Rightarrow> real" where
  "toFixed1 x =
     (if 10 ^ 21 \<le> \<bar>x\<bar> then x
      else if x < 0 then - (of_int \<lfloor>10 * (- x) + 1 / 2\<rfloor> / 10)
      else of_int \<lfloor>10 * x + 1 / 2\<rfloor> / 10)"

fun parseFloat_toFixed1 :: "number \<Rightarrow> number" where
  "parseFloat_toFixed1 (Num x) = Num (toFixed1 x)"
| "parseFloat_toFixed1 NaN = NaN"

section \<open>Sensor configurations and the sample generator\<close>

text \<open>
  One element of \<open>SENSOR_CONFIGS\<close> (server routes). \<open>threshold\<close> and \<open>maxValue\<close>
  are optional: \<open>None\<close> is a configuration written without the property.
\<close>

record sensor_config =
  cfg_nodeId :: string
  cfg_sensorType :: string
  cfg_unit :: string
  baseValue :: number
  variance :: number
  cfg_threshold :: "number option"
  cfg_maxValue :: "number option"
  location :: string

definition mk_config ::
  "string \<Rightarrow> string \<Rightarrow> string \<Rightarrow> real \<Rightarrow> real \<Rightarrow> real \<Rightarrow> real \<Rightarrow> string \<Rightarrow> sensor_config" where
  "mk_config n t u b v th mx loc =
     \<lparr>cfg_nodeId = n, cfg_sensorType = t, cfg_unit = u, baseValue = Num b, variance = Num v,
      cfg_threshold = Some (Num th), cfg_maxValue = Some (Num mx), location = loc\<rparr>"

text \<open>The degree sign and the superscript two are the code units 0xB0 and 0xB2.\<close>

definition SENSOR_CONFIGS :: "sensor_config list" where
  "SENSOR_CONFIGS =
     [mk_config ''CORE-TEMP-01'' ''temperature'' [CHR 0xB0, CHR ''C''] 580 8 590 620 ''AWS'',
      mk_config ''CORE-TEMP-02'' ''temperature'' [CHR 0xB0, CHR ''C''] 575 10 590 620 ''Ubuntu'',
      mk_config ''PRES-PRI-01'' ''pressure'' ''MPa'' (155 / 10) (3 / 10) (162 / 10) (175 / 10) ''AWS'',
      mk_config ''PRES-SEC-01'' ''pressure'' ''MPa'' 7 (2 / 10) (78 / 10) (85 / 10) ''Ubuntu'',
      mk_config ''RAD-CORE-01'' ''radiation'' ''mSv/h'' (21 / 10) (2 / 10) (45 / 10) 8 ''AWS'',
      mk_config ''RAD-CONT-01'' ''radiation'' ''mSv/h'' (8 / 10) (1 / 10) 2 5 ''Ubuntu'',
      mk_config ''COOL-PRI-01'' ''coolant_flow'' ''L/s'' 1247 30 1180 1400 ''AWS'',
      mk_config ''COOL-SEC-01'' ''coolant_flow'' ''L/s'' 890 25 850 950 ''Ubuntu'',
      mk_config ''NEUT-FLUX-01'' ''neutron_flux'' (''n/cm'' @ [CHR 0xB2] @ ''s'')
        (28 * 10 ^ 13) (15 * 10 ^ 12) (32 * 10 ^ 13) (38 * 10 ^ 13) ''AWS'',
      mk_config ''NEUT-FLUX-02'' ''neutron_flux'' (''n/cm'' @ [CHR 0xB2] @ ''s'')
        (29 * 10 ^ 13) (18 * 10 ^ 12) (32 * 10 ^ 13) (38 * 10 ^ 13) ''Ubuntu'',
      mk_config ''CTRL-ROD-01'' ''control_rods'' ''%'' 68 2 72 100 ''AWS'',
      mk_config ''CTRL-ROD-02'' ''control_rods'' ''%'' 65 3 72 100 ''Ubuntu'']"

text \<open>
  \<open>generateSensorData\<close>, the status of a value:
  \<^verbatim>\<open>let status = "normal";
  if (value > config.threshold) {
    status = config.maxValue && value > config.maxValue * 0.9 ? "critical" : "warning";
  }\<close>
\<close>

definition derive_status :: "number \<Rightarrow> sensor_config \<Rightarrow> string" where
  "derive_status v config =
     (if js_gt v (toNumber (cfg_threshold config))
      then (if truthy (cfg_maxValue config)
               \<and> js_gt v (js_mul (toNumber (cfg_maxValue config)) (Num (9 / 10)))
            then ''critical'' else ''warning'')
      else ''normal'')"

text \<open>
  \<open>generateSensorData\<close>, one sensor: the value drawn, and the value written. For a
  neutron flux sensor the value written is
  \<^verbatim>\<open>parseFloat((value / 1e14).toFixed(1)) * 1e14\<close>.
\<close>

definition generate_value :: "real \<Rightarrow> sensor_config \<Rightarrow> number" where
  "generate_value r config =
     (let variation = js_mul (js_sub (Num r) (Num (1 / 2))) (variance config)
      in js_add (baseValue config) variation)"

definition persisted_value :: "number \<Rightarrow> sensor_config \<Rightarrow> number" where
  "persisted_value v config =
     (if cfg_sensorType config = ''neutron_flux''
      then js_mul (parseFloat_toFixed1 (js_div v (Num (10 ^ 14)))) (Num (10 ^ 14))
      else v)"

text \<open>The argument of \<open>storage.createSensorData\<close> (\<open>InsertSensorData\<close> of the schema).\<close>

record insert_sensor_data =
  nodeId :: string
  sensorType :: string
  sd_value :: number
  sd_unit :: string
  status :: string
  threshold :: "number option"
  maxValue :: "number option"

definition generateSensorData_reading :: "real \<Rightarrow> sensor_config \<Rightarrow> insert_sensor_data" where
  "generateSensorData_reading r config =
     (let v = generate_value r config;
          st = derive_status v config;
          v' = persisted_value v config
      in \<lparr>nodeId = cfg_nodeId config, sensorType = cfg_sensorType config, sd_value = v',
          sd_unit = cfg_unit config, status = st, threshold = cfg_threshold config,
          maxValue = cfg_maxValue config\<rparr>)"

section \<open>The derived-insight scheduler\<close>

text \<open>
  The argument of \<open>storage.createAiRecommendation\<close>; a template of
  \<open>nuclearAnalysisPatterns\<close> has the same five properties.
\<close>

record insert_ai_recommendation =
  title :: string
  description :: string
  priority :: string
  confidence :: number
  category :: string

definition nuclearAnalysisPatterns :: "insert_ai_recommendation list" where
  "nuclearAnalysisPatterns =
     [
      \<lparr>title = ''Core Temperature Trend Analysis'',
        description = ''Primary loop temperature approaching technical specification limits. Recommend reducing reactor power by 5% and monitoring neutron flux distribution.'',
        priority = ''high'', confidence = Num 91, category = ''anomaly''\<rparr>,
      \<lparr>title = ''Thermal Hydraulic Optimization'',
        description = ''Secondary coolant flow pattern shows potential for 2.1% efficiency improvement. Consider adjusting steam generator feedwater flow rate.'',
        priority = ''medium'', confidence = Num 88, category = ''optimization''\<rparr>,
      \<lparr>title = ''Neutron Flux Distribution Alert'',
        description = ''In-core neutron detectors show asymmetric flux pattern. Control rod bank D position may require adjustment to maintain axial power distribution.'',
        priority = ''high'', confidence = Num 93, category = ''anomaly''\<rparr>,
      \<lparr>title = ''Reactor Physics Optimization'',
        description = ''Current control rod configuration allows for 1.8% burnup optimization while maintaining safety margins within technical specifications.'',
        priority = ''medium'', confidence = Num 85, category = ''optimization''\<rparr>,
      \<lparr>title = ''Primary Pressure System Performance'',
        description = ''Pressurizer level and pressure trending nominally. All safety injection system pumps available. RCS integrity maintained.'',
        priority = ''info'', confidence = Num 97, category = ''performance''\<rparr>,
      \<lparr>title = ''Steam Generator Performance'',
        description = ''Secondary side pressure differential indicates potential for steam generator tube inspection during next scheduled outage.'',
        priority = ''medium'', confidence = Num 82, category = ''optimization''\<rparr>,
      \<lparr>title = ''Radiation Protection Analysis'',
        description = ''Containment radiation monitors within normal operating envelope. No indication of fuel cladding degradation or primary-to-secondary leakage.'',
        priority = ''info'', confidence = Num 94, category = ''performance''\<rparr>,
      \<lparr>title = ''Environmental Monitoring Alert'',
        description = ''Slight increase in containment particulate activity. Recommend enhanced radiological surveillance and primary coolant sampling.'',
        priority = ''medium'', confidence = Num 79, category = ''anomaly''\<rparr>,
      \<lparr>title = ''Control Rod Drive System Status'',
        description = ''All control rod drive mechanisms responding normally. Rod drop times within technical specification requirements.'',
        priority = ''info'', confidence = Num 98, category = ''performance''\<rparr>,
      \<lparr>title = ''Reactor Trip System Readiness'',
        description = ''All reactor protection system channels operational. Diverse actuation system armed and ready. Safety systems demonstrate high reliability.'',
        priority = ''info'', confidence = Num 96, category = ''performance''\<rparr>]"

text \<open>
  Reading an array at a number: an element for an integer index in range, and
  \<open>undefined\<close> (here \<open>None\<close>) otherwise.
\<close>

fun array_get :: "'a list \<Rightarrow> number \<Rightarrow> 'a option" where
  "array_get xs (Num x) =
     (if x = of_int \<lfloor>x\<rfloor> \<and> 0 \<le> x \<and> \<lfloor>x\<rfloor> < int (length xs) then Some (xs ! nat \<lfloor>x\<rfloor>) else None)"
| "array_get xs NaN = None"

datatype js_error = TypeError

text \<open>\<^verbatim>\<open>Math.floor(Math.random() * 8) - 4\<close>, with the draw \<open>r\<close>.\<close>

definition confidenceVariation :: "real \<Rightarrow> number" where
  "confidenceVariation r = js_sub (js_floor (js_mul (Num r) (Num 8))) (Num 4)"

text \<open>\<^verbatim>\<open>Math.max(75, Math.min(99, analysis.confidence + confidenceVariation))\<close>\<close>

definition finalConfidence :: "number \<Rightarrow> number \<Rightarrow> number" where
  "finalConfidence c var = js_max (Num 75) (js_min (Num 99) (js_add c var))"

text \<open>
  One tick of \<open>performAiAnalysis\<close>, with its three draws of \<open>Math.random()\<close> in the
  order the source makes them. The result is the recommendation handed to the storage,
  \<open>None\<close> when the tick produces none; reading a property of a missing template is a
  \<open>TypeError\<close>.
\<close>

definition performAiAnalysis ::
  "real \<Rightarrow> real \<Rightarrow> real \<Rightarrow> js_error + insert_ai_recommendation option" where
  "performAiAnalysis r1 r2 r3 =
     (let shouldGenerateAnalysis = js_lt (Num r1) (Num (25 / 100)) in
      if shouldGenerateAnalysis then
        (case array_get nuclearAnalysisPatterns
                (js_floor (js_mul (Num r2) (Num (real (length nuclearAnalysisPatterns))))) of
           None \<Rightarrow> Inl TypeError
         | Some analysis \<Rightarrow>
             Inr (Some \<lparr>title = title analysis, description = description analysis,
                        priority = priority analysis,
                        confidence = finalConfidence (confidence analysis) (confidenceVariation r3),
                        category = category analysis\<rparr>))
      else Inr None)"

section \<open>The storage\<close>

text \<open>
  Modelled from the spec: the storage engine behind \<open>db\<close> (the module \<open>./db\<close> and the
  database itself are not among the sources). A table is the list of its rows in
  insertion order. An insert appends one row, with the identifier and the default
  timestamp the engine assigns, both arguments here; a select without an order reads
  the rows as stored; an update rewrites the rows its condition selects. A timestamp is
  a count of milliseconds, as the comparison of two \<open>Date\<close> values reads it.

  What the schema declares is kept: a column declared \<open>notNull\<close> without a default
  rejects a row that gives it no value, a \<open>real\<close> column holds single precision
  numbers, and an \<open>integer\<close> column holds 32 bit integers.
\<close>

datatype db_error = Not_null_violation string | Out_of_range string | Invalid_input string







record sensor_data = insert_sensor_data +
  sd_id :: int
  sd_timestamp :: int


text \<open>
  \<open>DatabaseStorage.getLatestSensorData\<close>. The \<open>Map\<close> is an association list: \<open>set\<close> on
  a key it holds replaces the value in place, on a new key it appends, and \<open>values()\<close>
  lists the values in that order.
  \<^verbatim>\<open>result.forEach(data => {
    const existing = grouped.get(data.nodeId);
    if (!existing || data.timestamp > existing.timestamp) {
      grouped.set(data.nodeId, data);
    }
  });\<close>
\<close>

definition grouped_step :: "(string \<times> sensor_data) list \<Rightarrow> sensor_data \<Rightarrow> (string \<times> sensor_data) list" where
  "grouped_step grouped data =
     (case map_of grouped (nodeId data) of
        None \<Rightarrow> AList.update (nodeId data) data grouped
      | Some existing \<Rightarrow>
          if sd_timestamp existing < sd_timestamp data
          then AList.update (nodeId data) data grouped
          else grouped)"

definition getLatestSensorData :: "sensor_data list \<Rightarrow> sensor_data list" where
  "getLatestSensorData table = map snd (foldl grouped_step [] table)"

text \<open>
  Alerts: the object \<open>storage.createAlert\<close> reads, and a row of the table. The method
  reads \<open>alert.sensorNodeId\<close>, \<open>alert.alertType\<close>, \<open>alert.message\<close> and
  \<open>alert.isActive\<close>; a property the object does not have reads as \<open>undefined\<close>, here
  \<open>None\<close>, and gives its column no value. \<open>sensor_node_id\<close>, \<open>alert_type\<close> and
  \<open>message\<close> are \<open>notNull\<close> without a default; \<open>is_active\<close> defaults to true.
\<close>

record insert_alert =
  ins_sensorNodeId :: "string option"
  ins_alertType :: "string option"
  ins_message :: "string option"
  ins_isActive :: "bool option"

record alert =
  al_id :: int
  sensorNodeId :: string
  alertType :: string
  message :: string
  isActive :: bool
  al_timestamp :: int

definition createAlert ::
  "insert_alert \<Rightarrow> int \<Rightarrow> int \<Rightarrow> alert list \<Rightarrow> db_error + alert \<times> alert list" where
  "createAlert a new_id now table =
     (case ins_sensorNodeId a of
        None \<Rightarrow> Inl (Not_null_violation ''sensor_node_id'')
      | Some n \<Rightarrow>
          (case ins_alertType a of
             None \<Rightarrow> Inl (Not_null_violation ''alert_type'')
           | Some t \<Rightarrow>
               (case ins_message a of
                  None \<Rightarrow> Inl (Not_null_violation ''message'')
                | Some m \<Rightarrow>
                    (let result = \<lparr>al_id = new_id, sensorNodeId = n, alertType = t, message = m,
                                    isActive = (case ins_isActive a of None \<Rightarrow> True | Some b \<Rightarrow> b),
                                    al_timestamp = now\<rparr>
                     in Inr (result, table @ [result])))))"

text \<open>
  \<open>getActiveAlerts\<close>: the active rows, latest first (rows of one timestamp in no
  promised order; here the later row first).
\<close>

definition getActiveAlerts :: "alert list \<Rightarrow> alert list" where
  "getActiveAlerts table = rev (sort_key al_timestamp (filter isActive table))"

text \<open>
  \<open>deactivateAlert\<close>:
  \<^verbatim>\<open>update(alerts).set({ isActive: false }).where(eq(alerts.id, id))\<close>.
  The identifier is a JavaScript number, compared with the \<open>integer\<close> column \<open>id\<close>:
  the database rejects the statement when the number is NaN, not an integer, or not
  within 32 bits.
\<close>

definition int4 :: "number \<Rightarrow> int option" where
  "int4 n =
     (case n of
        NaN \<Rightarrow> None
      | Num x \<Rightarrow>
          if x = of_int \<lfloor>x\<rfloor> \<and> - (2 ^ 31) \<le> \<lfloor>x\<rfloor> \<and> \<lfloor>x\<rfloor> < 2 ^ 31 then Some \<lfloor>x\<rfloor> else None)"

definition deactivateAlert :: "number \<Rightarrow> alert list \<Rightarrow> db_error + alert list" where
  "deactivateAlert id' table =
     (case int4 id' of
        None \<Rightarrow> Inl (Invalid_input ''integer'')
      | Some i \<Rightarrow> Inr (map (\<lambda>a. if al_id a = i then a\<lparr>isActive := False\<rparr> else a) table))"

text \<open>
  What the loop of \<open>getLatestSensorData\<close> keeps true of the map \<open>g\<close> after the rows
  \<open>table\<close>: one key per sensor identifier read, and under each key the first row of
  the latest timestamp among that sensor's rows.
\<close>

definition latest_inv :: "sensor_data list \<Rightarrow> (string \<times> sensor_data) list \<Rightarrow> bool" where
  "latest_inv table g =
     (distinct (map fst g) \<and> fst ` set g = nodeId ` set table
      \<and> (\<forall>k r. map_of g k = Some r \<longrightarrow>
            nodeId r = k \<and> r \<in> set table
            \<and> (\<forall>x\<in>set table. nodeId x = k \<longrightarrow> sd_timestamp x \<le> sd_timestamp r)
            \<and> find (\<lambda>x. nodeId x = k \<and> sd_timestamp x = sd_timestamp r) table = Some r))"


text \<open>Rows and a table to run the storage on.\<close>

definition sample_row :: "string \<Rightarrow> real \<Rightarrow> int \<Rightarrow> int \<Rightarrow> sensor_data" where
  "sample_row n v i t =
     \<lparr>nodeId = n, sensorType = ''temperature'', sd_value = Num v, sd_unit = ''C'',
      status = ''normal'', threshold = Some (Num 590), maxValue = Some (Num 620),
      sd_id = i, sd_timestamp = t\<rparr>"

definition sample_table :: "sensor_data list" where
  "sample_table =
     [sample_row ''A'' 1 1 10, sample_row ''B'' 2 2 10, sample_row ''A'' 3 3 20,
      sample_row ''A'' 4 4 20, sample_row ''B'' 5 5 5]"

definition sample_alert :: "int \<Rightarrow> string \<Rightarrow> bool \<Rightarrow> alert" where
  "sample_alert i n act =
     \<lparr>al_id = i, sensorNodeId = n, alertType = ''warning'', message = ''exceeded threshold'',
      isActive = act, al_timestamp = 10\<rparr>"

section \<open>The route that deactivates an alert\<close>

text \<open>
  \<^verbatim>\<open>app.delete('/api/alerts/:id', ...)\<close>, from the number \<open>parseInt(req.params.id)\<close>
  gives: an integer, or NaN for a parameter that does not start with digits. The handler
  has two answers: \<^verbatim>\<open>res.json({ success: true })\<close> when the storage call returns,
  and \<^verbatim>\<open>res.status(500).json({ error: 'Failed to deactivate alert' })\<close> in its
  \<open>catch\<close>, when the storage call rejects.
\<close>

datatype json_body = Success_true | Error_message string

record http_response =
  status_code :: nat
  body :: json_body

definition delete_alert_route :: "number \<Rightarrow> alert list \<Rightarrow> http_response \<times> alert list" where
  "delete_alert_route id' table =
     (case deactivateAlert id' table of
        Inl err \<Rightarrow>
          (\<lparr>status_code = 500, body = Error_message ''Failed to deactivate alert''\<rparr>, table)
      | Inr table' \<Rightarrow> (\<lparr>status_code = 200, body = Success_true\<rparr>, table'))"

section \<open>The fan-out broadcaster\<close>

text \<open>The other rows the snapshot reads, as the schema declares them.\<close>

record ai_recommendation = insert_ai_recommendation +
  rec_id :: int
  rec_timestamp :: int

record insert_system_log =
  level :: string
  log_message :: string
  source :: string

record system_log = insert_system_log +
  log_id :: int
  log_timestamp :: int

record server_connection =
  conn_id :: int
  serverType :: string
  conn_status :: string
  lastPing :: int

record storage =
  st_sensorData :: "sensor_data list"
  st_alerts :: "alert list"
  st_aiRecommendations :: "ai_recommendation list"
  st_systemLogs :: "system_log list"
  st_serverConnections :: "server_connection list"

text \<open>
  \<open>getRecentAiRecommendations(limit)\<close> and \<open>getRecentSystemLogs(limit)\<close>: latest first,
  at most \<open>limit\<close> rows; \<open>getAllServerConnections\<close>: the table.
\<close>

definition getRecentAiRecommendations :: "nat \<Rightarrow> ai_recommendation list \<Rightarrow> ai_recommendation list" where
  "getRecentAiRecommendations limit table = take limit (rev (sort_key rec_timestamp table))"

definition getRecentSystemLogs :: "nat \<Rightarrow> system_log list \<Rightarrow> system_log list" where
  "getRecentSystemLogs limit table = take limit (rev (sort_key log_timestamp table))"

definition getAllServerConnections :: "server_connection list \<Rightarrow> server_connection list" where
  "getAllServerConnections table = table"

text \<open>
  The messages of the live connection. \<open>broadcast\<close> is called with a
  \<open>sensor_update\<close>, an \<open>ai_recommendation\<close> or a \<open>system_log\<close>;
  \<open>sendLatestData\<close> sends the \<open>initial_data\<close>.
\<close>

record snapshot =
  snap_sensorData :: "sensor_data list"
  snap_alerts :: "alert list"
  snap_recommendations :: "ai_recommendation list"
  snap_logs :: "system_log list"
  snap_serverConnections :: "server_connection list"

datatype update =
    Sensor_update sensor_data
  | Ai_recommendation ai_recommendation
  | System_log system_log

datatype message = Initial_data snapshot | Update update

datatype ready_state = CONNECTING | OPEN | CLOSING | CLOSED

text \<open>
  \<open>sendLatestData(ws)\<close> suspended at one of its five storage reads, with the results
  it holds so far.
\<close>

datatype handshake =
    Await_sensorData
  | Await_alerts "sensor_data list"
  | Await_recommendations "sensor_data list" "alert list"
  | Await_logs "sensor_data list" "alert list" "ai_recommendation list"
  | Await_serverConnections "sensor_data list" "alert list" "ai_recommendation list" "system_log list"

text \<open>
  The state of the server as an observer sees it: the set \<open>clients\<close> (in insertion
  order), the \<open>readyState\<close> of every socket, what has been sent on each socket, in
  order, the suspended \<open>sendLatestData\<close> of each socket, and the storage.
\<close>

record fanout =
  clients :: "nat list"
  readyState :: "nat \<Rightarrow> ready_state"
  outbox :: "nat \<Rightarrow> message list"
  handshakes :: "nat \<Rightarrow> handshake option"
  store :: storage

text \<open>
  What can happen. \<open>Connection ws\<close>: the server emits \<open>connection\<close> for an open socket;
  the handler adds it to \<open>clients\<close> and calls \<open>sendLatestData\<close>, which runs to its first
  \<open>await\<close>. \<open>Closing ws\<close>: the socket leaves the state \<open>OPEN\<close>. \<open>Closed ws\<close>: the
  socket emits \<open>close\<close>; the handler deletes it from \<open>clients\<close>. \<open>Broadcast u\<close>: some
  component calls \<open>broadcast\<close>. \<open>Commit st\<close>: the storage changes. \<open>Handshake_resume ws\<close>:
  the storage completes the read \<open>sendLatestData(ws)\<close> waits for, which then runs to its
  next \<open>await\<close>, or after the fifth read sends the snapshot if the socket is open.
  \<open>Handshake_fail ws\<close>: that read rejects, and \<open>sendLatestData\<close> ends in its \<open>catch\<close>.
\<close>

datatype fanout_event =
    Connection nat
  | Closing nat
  | Closed nat
  | Broadcast update
  | Commit storage
  | Handshake_resume nat
  | Handshake_fail nat

definition send :: "nat \<Rightarrow> message \<Rightarrow> fanout \<Rightarrow> fanout" where
  "send ws m s = s\<lparr>outbox := (outbox s)(ws := outbox s ws @ [m])\<rparr>"

text \<open>
  \<^verbatim>\<open>clients.forEach(client => {
    if (client.readyState === WebSocket.OPEN) { client.send(message); } });\<close>
\<close>

definition broadcast :: "update \<Rightarrow> fanout \<Rightarrow> fanout" where
  "broadcast u s =
     foldl (\<lambda>s' client. if readyState s' client = OPEN then send client (Update u) s' else s')
       s (clients s)"

fun sendLatestData_resume :: "nat \<Rightarrow> handshake \<Rightarrow> fanout \<Rightarrow> fanout" where
  "sendLatestData_resume ws Await_sensorData s =
     s\<lparr>handshakes := (handshakes s)
          (ws \<mapsto> Await_alerts (getLatestSensorData (st_sensorData (store s))))\<rparr>"
| "sendLatestData_resume ws (Await_alerts sd) s =
     s\<lparr>handshakes := (handshakes s)
          (ws \<mapsto> Await_recommendations sd (getActiveAlerts (st_alerts (store s))))\<rparr>"
| "sendLatestData_resume ws (Await_recommendations sd al) s =
     s\<lparr>handshakes := (handshakes s)
          (ws \<mapsto> Await_logs sd al (getRecentAiRecommendations 3 (st_aiRecommendations (store s))))\<rparr>"
| "sendLatestData_resume ws (Await_logs sd al re) s =
     s\<lparr>handshakes := (handshakes s)
          (ws \<mapsto> Await_serverConnections sd al re (getRecentSystemLogs 5 (st_systemLogs (store s))))\<rparr>"
| "sendLatestData_resume ws (Await_serverConnections sd al re lo) s =
     (let serverConnections = getAllServerConnections (st_serverConnections (store s));
          data = Initial_data \<lparr>snap_sensorData = sd, snap_alerts = al, snap_recommendations = re,
                                snap_logs = lo, snap_serverConnections = serverConnections\<rparr>;
          s' = s\<lparr>handshakes := (handshakes s)(ws := None)\<rparr>
      in if readyState s' ws = OPEN then send ws data s' else s')"

fun fanout_step :: "fanout \<Rightarrow> fanout_event \<Rightarrow> fanout" where
  "fanout_step s (Connection ws) =
     s\<lparr>clients := (if ws \<in> set (clients s) then clients s else clients s @ [ws]),
       readyState := (readyState s)(ws := OPEN),
       handshakes := (handshakes s)(ws \<mapsto> Await_sensorData)\<rparr>"
| "fanout_step s (Closing ws) = s\<lparr>readyState := (readyState s)(ws := CLOSING)\<rparr>"
| "fanout_step s (Closed ws) =
     s\<lparr>readyState := (readyState s)(ws := CLOSED), clients := removeAll ws (clients s)\<rparr>"
| "fanout_step s (Broadcast u) = broadcast u s"
| "fanout_step s (Commit st) = s\<lparr>store := st\<rparr>"
| "fanout_step s (Handshake_resume ws) =
     (case handshakes s ws of None \<Rightarrow> s | Some h \<Rightarrow> sendLatestData_resume ws h s)"
| "fanout_step s (Handshake_fail ws) = s\<lparr>handshakes := (handshakes s)(ws := None)\<rparr>"

definition run_fanout :: "fanout \<Rightarrow> fanout_event list \<Rightarrow> fanout" where
  "run_fanout = foldl fanout_step"

text \<open>The snapshot of one storage state.\<close>

definition full_snapshot :: "storage \<Rightarrow> snapshot" where
  "full_snapshot st =
     \<lparr>snap_sensorData = getLatestSensorData (st_sensorData st),
      snap_alerts = getActiveAlerts (st_alerts st),
      snap_recommendations = getRecentAiRecommendations 3 (st_aiRecommendations st),
      snap_logs = getRecentSystemLogs 5 (st_systemLogs st),
      snap_serverConnections = getAllServerConnections (st_serverConnections st)\<rparr>"

text \<open>
  An event that leaves the handshake of the socket \<open>ws\<close> undisturbed: no broadcast, and
  for \<open>ws\<close> itself no second connection, no closing and no failed read.
\<close>

fun quiet :: "nat \<Rightarrow> fanout_event \<Rightarrow> bool" where
  "quiet ws (Connection ws') = (ws' \<noteq> ws)"
| "quiet ws (Closing ws') = (ws' \<noteq> ws)"
| "quiet ws (Closed ws') = (ws' \<noteq> ws)"
| "quiet ws (Broadcast u) = False"
| "quiet ws (Commit st) = True"
| "quiet ws (Handshake_resume ws') = True"
| "quiet ws (Handshake_fail ws') = (ws' \<noteq> ws)"

fun is_Commit :: "fanout_event \<Rightarrow> bool" where
  "is_Commit (Commit st) = True"
| "is_Commit _ = False"

text \<open>The empty server over a storage.\<close>

definition fanout_init :: "storage \<Rightarrow> fanout" where
  "fanout_init st =
     \<lparr>clients = [], readyState = (\<lambda>ws. CONNECTING), outbox = (\<lambda>ws. []),
      handshakes = (\<lambda>ws. None), store = st\<rparr>"

text \<open>
  For the proofs about a handshake: how many of its reads have completed, and that
  the results it holds are those of one storage state.
\<close>

fun stage :: "handshake \<Rightarrow> nat" where
  "stage Await_sensorData = 0"
| "stage (Await_alerts sd) = 1"
| "stage (Await_recommendations sd al) = 2"
| "stage (Await_logs sd al re) = 3"
| "stage (Await_serverConnections sd al re lo) = 4"

fun consistent :: "storage \<Rightarrow> handshake \<Rightarrow> bool" where
  "consistent st Await_sensorData = True"
| "consistent st (Await_alerts sd) = (sd = snap_sensorData (full_snapshot st))"
| "consistent st (Await_recommendations sd al) =
     (sd = snap_sensorData (full_snapshot st) \<and> al = snap_alerts (full_snapshot st))"
| "consistent st (Await_logs sd al re) =
     (sd = snap_sensorData (full_snapshot st) \<and> al = snap_alerts (full_snapshot st)
      \<and> re = snap_recommendations (full_snapshot st))"
| "consistent st (Await_serverConnections sd al re lo) =
     (sd = snap_sensorData (full_snapshot st) \<and> al = snap_alerts (full_snapshot st)
      \<and> re = snap_recommendations (full_snapshot st) \<and> lo = snap_logs (full_snapshot st))"


text \<open>A storage to run the server on, and a reading to broadcast.\<close>

definition sample_storage :: storage where
  "sample_storage =
     \<lparr>st_sensorData = sample_table,
      st_alerts = [sample_alert 1 ''A'' True, sample_alert 2 ''B'' False],
      st_aiRecommendations = [],
      st_systemLogs = [\<lparr>level = ''info'',
                         log_message = ''Nuclear reactor monitoring system initialized - Rev 2.1.4'',
                         source = ''system'', log_id = 1, log_timestamp = 3\<rparr>],
      st_serverConnections =
        [\<lparr>conn_id = 1, serverType = ''aws'', conn_status = ''connected'', lastPing = 0\<rparr>,
         \<lparr>conn_id = 2, serverType = ''ubuntu'', conn_status = ''connected'', lastPing = 0\<rparr>]\<rparr>"

section \<open>The scenario manager\<close>

text \<open>
  The interfaces of \<open>ReactorScenarioManager\<close> and its three scenarios, as the source
  lists them. Every \<open>valueChange\<close> of the source is an integer.
\<close>

record sensor_modification =
  mod_nodeId :: string
  valueChange :: int
  statusChange :: "string option"
  reason :: string

record alert_condition =
  severity :: string
  ac_message :: string
  ac_nodeId :: "string option"
  triggerCondition :: string

record scenario_phase =
  phase_name :: string
  phase_duration :: nat
  sensorModifications :: "sensor_modification list"
  alertConditions :: "alert_condition list"
  procedureSteps :: "string list"

record reactor_scenario =
  scn_id :: string
  scn_name :: string
  scn_description :: string
  scn_duration :: nat
  phases :: "scenario_phase list"
  safeguards :: "string list"
  procedures :: "string list"






text \<open>
  The objects the manager hands to \<open>storage.createAlert\<close> and
  \<open>storage.createAiRecommendation\<close>, with the properties the source gives them.
\<close>

record scenario_alert =
  sa_nodeId :: string
  sa_message :: string
  sa_severity :: string
  sa_isActive :: bool
  sa_acknowledgedAt :: "int option"

record scenario_recommendation =
  sr_type :: string
  sr_priority :: string
  sr_title :: string
  sr_description :: string
  sr_confidence :: nat
  sr_estimatedImpact :: string

text \<open>
  The manager's methods are \<open>async\<close>: a call runs to its first \<open>await\<close> and is
  suspended there until the storage call it waits for completes; the rest runs later,
  on the state it then finds. A suspended call is the storage call it waits for
  together with the point where it resumes, with its local variables.
\<close>

datatype db_call =
    Insert_systemLog insert_system_log
  | Create_alert scenario_alert
  | Create_recommendation scenario_recommendation

datatype continuation =
    Stop_tail
  | Start_after_log reactor_scenario
  | Start_after_alert reactor_scenario
  | Exec_after_log scenario_phase
  | Exec_after_mod scenario_phase "sensor_modification list"
  | Exec_after_alert scenario_phase "alert_condition list"
  | Exec_after_recommendation scenario_phase
  | Complete_after_log
  | Complete_after_alert

datatype outcome = Returned bool | Rejected

text \<open>
  The four fields of the manager, and around them: the timers that are set and not yet
  fired or cleared (each runs \<^verbatim>\<open>this.currentPhase++; this.executeCurrentPhase()\<close>),
  the number of timers set so far, the suspended calls, the system logs and the alerts
  the storage has stored, how the calls of \<open>startScenario\<close> ended, and the
  \<open>TypeError\<close>s thrown. The delay of a
  timer is not modelled: a live timer can fire at any moment. Console output is left
  out.
\<close>

record manager =
  activeScenario :: "reactor_scenario option"
  currentPhase :: nat
  scenarioStartTime :: "int option"
  phaseTimer :: "nat option"
  timers :: "nat list"
  timer_count :: nat
  tasks :: "(db_call \<times> continuation) list"
  db_logs :: "insert_system_log list"
  db_alerts :: "alert list"
  returns :: "outcome list"
  thrown :: "js_error list"













text \<open>
  The storage performs a call when it completes it. A system log is inserted with its
  three columns given. Of the object the manager hands to \<open>storage.createAlert\<close> the
  method reads \<open>sensorNodeId\<close>, \<open>alertType\<close>, \<open>message\<close> and \<open>isActive\<close>: the
  object has the last two. Of the object handed to \<open>storage.createAiRecommendation\<close>
  the method reads \<open>title\<close>, \<open>description\<close>, \<open>priority\<close>, \<open>confidence\<close> and
  \<open>category\<close>: the object has no \<open>category\<close>, a column declared \<open>notNull\<close> without a
  default.
\<close>

definition read_by_createAlert :: "scenario_alert \<Rightarrow> insert_alert" where
  "read_by_createAlert a =
     \<lparr>ins_sensorNodeId = None, ins_alertType = None, ins_message = Some (sa_message a),
      ins_isActive = Some (sa_isActive a)\<rparr>"

fun perform :: "db_call \<Rightarrow> int \<Rightarrow> manager \<Rightarrow> db_error + manager" where
  "perform (Insert_systemLog l) now m = Inr (m\<lparr>db_logs := db_logs m @ [l]\<rparr>)"
| "perform (Create_alert a) now m =
     (case createAlert (read_by_createAlert a) (1 + int (length (db_alerts m))) now (db_alerts m) of
        Inl err \<Rightarrow> Inl err
      | Inr (result, table) \<Rightarrow> Inr (m\<lparr>db_alerts := table\<rparr>))"
| "perform (Create_recommendation r) now m = Inl (Not_null_violation ''category'')"


text \<open>A list without its \<open>i\<close>-th element.\<close>

definition drop_nth :: "nat \<Rightarrow> 'a list \<Rightarrow> 'a list" where
  "drop_nth i xs = take i xs @ drop (Suc i) xs"





section \<open>The alert deduplicator of the sample generator\<close>

text \<open>\<open>String.prototype.replace\<close> with two strings of one character: the first match only.\<close>

fun replace_first :: "char \<Rightarrow> char \<Rightarrow> string \<Rightarrow> string" where
  "replace_first a b [] = []"
| "replace_first a b (c # cs) = (if c = a then b # cs else c # replace_first a b cs)"

definition alert_message :: "sensor_config \<Rightarrow> string \<Rightarrow> string" where
  "alert_message config st =
     replace_first (CHR ''_'') (CHR '' '') (cfg_sensorType config) @ '' sensor '' @ cfg_nodeId config
       @ '' '' @ (if st = ''critical'' then ''critically'' else []) @ '' exceeded threshold''"

text \<open>
  \<^verbatim>\<open>existingAlerts.some(alert => alert.sensorNodeId === config.nodeId && alert.isActive)\<close>
\<close>

definition hasActiveAlert :: "sensor_config \<Rightarrow> alert list \<Rightarrow> bool" where
  "hasActiveAlert config existingAlerts =
     list_ex (\<lambda>a. sensorNodeId a = cfg_nodeId config \<and> isActive a) existingAlerts"

text \<open>
  The tail of the callback of \<open>generateSensorData\<close>, after the reading is stored:
  \<^verbatim>\<open>if (status === "warning" || status === "critical") {
    const existingAlerts = await storage.getActiveAlerts();
    const hasActiveAlert = existingAlerts.some(...);
    if (!hasActiveAlert) {
      await storage.createAlert({ sensorNodeId: config.nodeId, alertType: status,
        message: ..., isActive: true });
    }
  }\<close>
  \<open>forEach\<close> starts the callbacks of all configured sensors one after the other;
  each \<open>await\<close> suspends a callback until its storage call completes, and callbacks
  of other sensors and of later ticks (every two seconds) run meanwhile. A suspended
  callback is the storage call it waits for. The storage performs a call when it
  completes it.
\<close>

datatype pending =
    Await_getActiveAlerts sensor_config string
  | Await_createAlert insert_alert

text \<open>
  The table of alerts, the last number drawn from the serial of its column \<open>id\<close> (the
  database draws one for every insert, also for one it then rejects), and the suspended
  callbacks.
\<close>

record alert_world =
  aw_alerts :: "alert list"
  aw_serial :: int
  aw_pending :: "pending list"

text \<open>
  What can happen. The callback of the \<open>k\<close>-th configured sensor, with the draw \<open>r\<close>
  of \<open>Math.random()\<close> (at least 0, less than 1), has stored its reading and reaches the
  test with the status of its reading (\<open>Evaluate\<close>). The storage completes the call of
  the \<open>i\<close>-th suspended callback, at a time (\<open>Resume\<close>); the callback then runs to
  its next \<open>await\<close> or to its end, which it also reaches, through its \<open>catch\<close>,
  when the database rejects the insert. The route deactivates an alert
  (\<open>Acknowledge\<close>, with the number \<open>parseInt\<close> gives). The storage completes a
  \<open>storage.createAlert\<close> of the scenario manager, which makes no test before it
  (\<open>Scenario_alert\<close>).
\<close>

datatype alert_event =
    Evaluate nat real
  | Resume nat int
  | Acknowledge number
  | Scenario_alert scenario_alert int

fun alert_step :: "alert_world \<Rightarrow> alert_event \<Rightarrow> alert_world" where
  "alert_step w (Evaluate k r) =
     (if k < length SENSOR_CONFIGS \<and> 0 \<le> r \<and> r < 1 then
        (let config = SENSOR_CONFIGS ! k;
             st = status (generateSensorData_reading r config)
         in if st = ''warning'' \<or> st = ''critical''
            then w\<lparr>aw_pending := aw_pending w @ [Await_getActiveAlerts config st]\<rparr>
            else w)
      else w)"
| "alert_step w (Resume i now) =
     (if i < length (aw_pending w) then
        (case aw_pending w ! i of
           Await_getActiveAlerts config st \<Rightarrow>
             (let existingAlerts = getActiveAlerts (aw_alerts w) in
              if \<not> hasActiveAlert config existingAlerts
              then w\<lparr>aw_pending := (aw_pending w)
                     [i := Await_createAlert
                        \<lparr>ins_sensorNodeId = Some (cfg_nodeId config), ins_alertType = Some st,
                         ins_message = Some (alert_message config st),
                         ins_isActive = Some True\<rparr>]\<rparr>
              else w\<lparr>aw_pending := drop_nth i (aw_pending w)\<rparr>)
         | Await_createAlert a \<Rightarrow>
             (case createAlert a (aw_serial w + 1) now (aw_alerts w) of
                Inl err \<Rightarrow>
                  w\<lparr>aw_serial := aw_serial w + 1, aw_pending := drop_nth i (aw_pending w)\<rparr>
              | Inr (result, table) \<Rightarrow>
                  w\<lparr>aw_alerts := table, aw_serial := aw_serial w + 1,
                    aw_pending := drop_nth i (aw_pending w)\<rparr>))
      else w)"
| "alert_step w (Acknowledge id') =
     (case deactivateAlert id' (aw_alerts w) of
        Inl err \<Rightarrow> w
      | Inr table \<Rightarrow> w\<lparr>aw_alerts := table\<rparr>)"
| "alert_step w (Scenario_alert a now) =
     (case createAlert (read_by_createAlert a) (aw_serial w + 1) now (aw_alerts w) of
        Inl err \<Rightarrow> w\<lparr>aw_serial := aw_serial w + 1\<rparr>
      | Inr (result, table) \<Rightarrow> w\<lparr>aw_alerts := table, aw_serial := aw_serial w + 1\<rparr>)"

definition run_alerts :: "alert_world \<Rightarrow> alert_event list \<Rightarrow> alert_world" where
  "run_alerts = foldl alert_step"

text \<open>At most one active alert for every sensor identifier.\<close>

definition one_active_per_sensor :: "alert list \<Rightarrow> bool" where
  "one_active_per_sensor table = distinct (map sensorNodeId (filter isActive table))"

text \<open>
  The sensor identifiers of the inserts the suspended callbacks wait for.
\<close>

fun insert_sensor :: "pending \<Rightarrow> string list" where
  "insert_sensor (Await_getActiveAlerts config st) = []"
| "insert_sensor (Await_createAlert a) =
     (case ins_sensorNodeId a of None \<Rightarrow> [] | Some n \<Rightarrow> [n])"

definition pending_sensors :: "pending list \<Rightarrow> string list" where
  "pending_sensors ps = concat (map insert_sensor ps)"

text \<open>
  A run in which no callback reads the active alerts while another callback of the same
  sensor, having read them, waits for its insert. Callbacks of different sensors
  read and insert in any order.
\<close>

fun no_read_during_insert_step :: "alert_world \<Rightarrow> alert_event \<Rightarrow> bool" where
  "no_read_during_insert_step w (Resume i now) =
     (if i < length (aw_pending w) then
        (case aw_pending w ! i of
           Await_getActiveAlerts config st \<Rightarrow>
             cfg_nodeId config \<notin> set (pending_sensors (aw_pending w))
         | Await_createAlert a \<Rightarrow> True)
      else True)"
| "no_read_during_insert_step w (Evaluate k r) = True"
| "no_read_during_insert_step w (Acknowledge id') = True"
| "no_read_during_insert_step w (Scenario_alert a now) = True"

fun no_read_during_insert :: "alert_world \<Rightarrow> alert_event list \<Rightarrow> bool" where
  "no_read_during_insert w [] = True"
| "no_read_during_insert w (e # es) =
     (no_read_during_insert_step w e \<and> no_read_during_insert (alert_step w e) es)"

section \<open>Threshold evaluation\<close>

text \<open>
  C5. A configuration without a threshold gives the status "normal" for every value,
  negative values and NaN included. The comparison of a number with \<open>undefined\<close> is
  false and raises nothing, so the evaluation has no error branch.
\<close>

theorem derive_status_no_threshold:
  "cfg_threshold config = None \<Longrightarrow> derive_status v config = ''normal''"
  by (simp add: derive_status_def)

theorem derive_status_no_threshold_witness:
  "cfg_threshold \<lparr>cfg_nodeId = ''X'', cfg_sensorType = ''temperature'', cfg_unit = ''C'',
      baseValue = Num 580, variance = Num 8, cfg_threshold = None,
      cfg_maxValue = Some (Num 620), location = ''AWS''\<rparr> = None
   \<and> derive_status NaN \<lparr>cfg_nodeId = ''X'', cfg_sensorType = ''temperature'', cfg_unit = ''C'',
      baseValue = Num 580, variance = Num 8, cfg_threshold = None,
      cfg_maxValue = Some (Num 620), location = ''AWS''\<rparr> = ''normal''
   \<and> derive_status (Num (- 5)) \<lparr>cfg_nodeId = ''X'', cfg_sensorType = ''temperature'',
      cfg_unit = ''C'', baseValue = Num 580, variance = Num 8, cfg_threshold = None,
      cfg_maxValue = Some (Num 620), location = ''AWS''\<rparr> = ''normal''
   \<and> derive_status (Num 9999) \<lparr>cfg_nodeId = ''X'', cfg_sensorType = ''temperature'',
      cfg_unit = ''C'', baseValue = Num 580, variance = Num 8, cfg_threshold = None,
      cfg_maxValue = Some (Num 620), location = ''AWS''\<rparr> = ''normal''"
  using derive_status_no_threshold
  by simp

lemma configured_threshold_max:
  "list_all (\<lambda>c. truthy (cfg_maxValue c) \<and> cfg_threshold c \<noteq> None) SENSOR_CONFIGS"
  by (simp add: SENSOR_CONFIGS_def mk_config_def)

lemma reading_status:
  "status (generateSensorData_reading r config) = derive_status (generate_value r config) config"
  by (simp add: generateSensorData_reading_def Let_def)

text \<open>
  C1. The readings \<open>generateSensorData\<close> produces are those of the configured sensors,
  each with a threshold and a maximum. For every one of them and every value, the value
  drawn included, the status is "critical" exactly when the value exceeds the threshold
  and nine tenths of the maximum, "warning" exactly when it exceeds the threshold and not
  (the maximum is set and the value exceeds nine tenths of it), and "normal" otherwise.
  For a configuration without a maximum every value above the threshold is "warning",
  never "critical"; and 605 is "critical" for CORE-TEMP-01 (threshold 590, maximum 620).
\<close>

theorem derive_status_rule:
  "config \<in> set SENSOR_CONFIGS \<Longrightarrow>
   (\<exists>t m. cfg_threshold config = Some t \<and> cfg_maxValue config = Some m
      \<and> (\<forall>v. ((derive_status v config = ''critical'') =
                  (js_gt v t \<and> js_gt v (js_mul m (Num (9 / 10)))))
             \<and> ((derive_status v config = ''warning'') =
                  (js_gt v t \<and> \<not> (cfg_maxValue config \<noteq> None \<and> js_gt v (js_mul m (Num (9 / 10))))))
             \<and> ((derive_status v config = ''normal'') = (\<not> js_gt v t)))
      \<and> (\<forall>r. status (generateSensorData_reading r config)
                 = derive_status (generate_value r config) config))
   \<and> (\<forall>c v. cfg_maxValue c = None \<and> js_gt v (toNumber (cfg_threshold c)) \<longrightarrow>
          derive_status v c = ''warning'' \<and> derive_status v c \<noteq> ''critical'')
   \<and> derive_status (Num 605) \<lparr>cfg_nodeId = ''CORE-TEMP-01'', cfg_sensorType = ''temperature'',
        cfg_unit = [CHR 0xB0, CHR ''C''], baseValue = Num 580, variance = Num 8,
        cfg_threshold = Some (Num 590), cfg_maxValue = Some (Num 620), location = ''AWS''\<rparr>
       = ''critical''"
proof -
  assume "config \<in> set SENSOR_CONFIGS"
  with configured_threshold_max have "truthy (cfg_maxValue config)" "cfg_threshold config \<noteq> None"
    by (simp_all add: list_all_iff)
  then obtain t m where
    c: "cfg_threshold config = Some t" "cfg_maxValue config = Some m" "truthy (Some m)"
    by (cases "cfg_maxValue config") auto
  have rule: "\<forall>v. ((derive_status v config = ''critical'') =
                  (js_gt v t \<and> js_gt v (js_mul m (Num (9 / 10)))))
             \<and> ((derive_status v config = ''warning'') =
                  (js_gt v t \<and> \<not> (cfg_maxValue config \<noteq> None
                     \<and> js_gt v (js_mul m (Num (9 / 10))))))
             \<and> ((derive_status v config = ''normal'') = (\<not> js_gt v t))"
    using c by (simp add: derive_status_def)
  have first: "\<exists>t m. cfg_threshold config = Some t \<and> cfg_maxValue config = Some m
      \<and> (\<forall>v. ((derive_status v config = ''critical'') =
                  (js_gt v t \<and> js_gt v (js_mul m (Num (9 / 10)))))
             \<and> ((derive_status v config = ''warning'') =
                  (js_gt v t \<and> \<not> (cfg_maxValue config \<noteq> None \<and> js_gt v (js_mul m (Num (9 / 10))))))
             \<and> ((derive_status v config = ''normal'') = (\<not> js_gt v t)))
      \<and> (\<forall>r. status (generateSensorData_reading r config)
                 = derive_status (generate_value r config) config)"
    using c(1,2) rule reading_status by blast
  have unset: "\<forall>c v. cfg_maxValue c = None \<and> js_gt v (toNumber (cfg_threshold c)) \<longrightarrow>
          derive_status v c = ''warning'' \<and> derive_status v c \<noteq> ''critical''"
    by (simp add: derive_status_def)
  have example: "derive_status (Num 605) \<lparr>cfg_nodeId = ''CORE-TEMP-01'', cfg_sensorType = ''temperature'',
        cfg_unit = [CHR 0xB0, CHR ''C''], baseValue = Num 580, variance = Num 8,
        cfg_threshold = Some (Num 590), cfg_maxValue = Some (Num 620), location = ''AWS''\<rparr>
       = ''critical''"
    by (simp add: derive_status_def)
  from first unset example show ?thesis by blast
qed

theorem derive_status_rule_witness:
  "SENSOR_CONFIGS ! 6 \<in> set SENSOR_CONFIGS
   \<and> cfg_threshold (SENSOR_CONFIGS ! 6) = Some (Num 1180)
   \<and> cfg_maxValue (SENSOR_CONFIGS ! 6) = Some (Num 1400)
   \<and> derive_status (Num 1250) (SENSOR_CONFIGS ! 6) = ''warning''
   \<and> derive_status (Num 1261) (SENSOR_CONFIGS ! 6) = ''critical''
   \<and> derive_status (Num 1180) (SENSOR_CONFIGS ! 6) = ''normal''
   \<and> derive_status NaN (SENSOR_CONFIGS ! 6) = ''normal''"
proof -
  have m: "SENSOR_CONFIGS ! 6 \<in> set SENSOR_CONFIGS"
    by (rule nth_mem) (simp add: SENSOR_CONFIGS_def)
  have t: "cfg_threshold (SENSOR_CONFIGS ! 6) = Some (Num 1180)"
    and x: "cfg_maxValue (SENSOR_CONFIGS ! 6) = Some (Num 1400)"
    by (simp_all add: SENSOR_CONFIGS_def mk_config_def)
  from derive_status_rule [OF m] t x have rule:
    "\<forall>v. ((derive_status v (SENSOR_CONFIGS ! 6) = ''critical'') =
            (js_gt v (Num 1180) \<and> js_gt v (js_mul (Num 1400) (Num (9 / 10)))))
       \<and> ((derive_status v (SENSOR_CONFIGS ! 6) = ''warning'') =
            (js_gt v (Num 1180) \<and> \<not> (cfg_maxValue (SENSOR_CONFIGS ! 6) \<noteq> None
               \<and> js_gt v (js_mul (Num 1400) (Num (9 / 10))))))
       \<and> ((derive_status v (SENSOR_CONFIGS ! 6) = ''normal'') = (\<not> js_gt v (Num 1180)))"
    by auto
  have a: "derive_status (Num 1250) (SENSOR_CONFIGS ! 6) = ''warning''"
    using rule x by simp
  have b: "derive_status (Num 1261) (SENSOR_CONFIGS ! 6) = ''critical''"
    using rule by simp
  have c: "derive_status (Num 1180) (SENSOR_CONFIGS ! 6) = ''normal''"
    using rule by simp
  have d: "derive_status NaN (SENSOR_CONFIGS ! 6) = ''normal''"
    using rule by simp
  from m t x a b c d show ?thesis by blast
qed

section \<open>Neutron flux: the value written and the status written\<close>

lemma toFixed1_le: "0 \<le> x \<Longrightarrow> x < 315 / 100 \<Longrightarrow> toFixed1 x \<le> 31 / 10"
proof -
  assume a: "0 \<le> x" "x < 315 / 100"
  have "10 * x + 1 / 2 < 32" using a by simp
  then have "\<lfloor>10 * x + 1 / 2\<rfloor> < 32" by linarith
  then have "\<lfloor>10 * x + 1 / 2\<rfloor> \<le> 31" by simp
  then have "(of_int \<lfloor>10 * x + 1 / 2\<rfloor> :: real) \<le> 31" by linarith
  moreover have "\<bar>x\<bar> < 10 ^ 21" using a by simp
  ultimately show ?thesis using a by (simp add: toFixed1_def)
qed

lemma flux_filter:
  "filter (\<lambda>c. cfg_sensorType c = ''neutron_flux'') SENSOR_CONFIGS =
   [mk_config ''NEUT-FLUX-01'' ''neutron_flux'' (''n/cm'' @ [CHR 0xB2] @ ''s'')
        (28 * 10 ^ 13) (15 * 10 ^ 12) (32 * 10 ^ 13) (38 * 10 ^ 13) ''AWS'',
    mk_config ''NEUT-FLUX-02'' ''neutron_flux'' (''n/cm'' @ [CHR 0xB2] @ ''s'')
        (29 * 10 ^ 13) (18 * 10 ^ 12) (32 * 10 ^ 13) (38 * 10 ^ 13) ''Ubuntu'']"
  by (simp add: SENSOR_CONFIGS_def mk_config_def)

lemma flux_members:
  assumes "config \<in> set SENSOR_CONFIGS" "cfg_sensorType config = ''neutron_flux''"
  shows "config = mk_config ''NEUT-FLUX-01'' ''neutron_flux'' (''n/cm'' @ [CHR 0xB2] @ ''s'')
        (28 * 10 ^ 13) (15 * 10 ^ 12) (32 * 10 ^ 13) (38 * 10 ^ 13) ''AWS'' \<or>
   config = mk_config ''NEUT-FLUX-02'' ''neutron_flux'' (''n/cm'' @ [CHR 0xB2] @ ''s'')
        (29 * 10 ^ 13) (18 * 10 ^ 12) (32 * 10 ^ 13) (38 * 10 ^ 13) ''Ubuntu''"
proof -
  from assms have "config \<in> set (filter (\<lambda>c. cfg_sensorType c = ''neutron_flux'') SENSOR_CONFIGS)"
    by simp
  then show ?thesis
    by (simp only: flux_filter) simp
qed

lemma flux_normal:
  assumes "0 \<le> r" "r < 1" "b \<le> 29 * 10 ^ 13" "0 \<le> v" "v \<le> 18 * 10 ^ 12" "10 ^ 13 \<le> b"
  and c: "config = mk_config n ''neutron_flux'' u b v (32 * 10 ^ 13) (38 * 10 ^ 13) l"
  shows "derive_status (generate_value r config) config = ''normal''
    \<and> derive_status (persisted_value (generate_value r config) config) config = ''normal''"
proof -
  define g where "g = b + (r - 1 / 2) * v"
  have g: "generate_value r config = Num g"
    by (simp add: generate_value_def c mk_config_def g_def)
  have th: "toNumber (cfg_threshold config) = Num (32 * 10 ^ 13)"
    by (simp add: c mk_config_def)
  have ty: "cfg_sensorType config = ''neutron_flux''"
    by (simp add: c mk_config_def)
  have "(r - 1 / 2) * v \<le> (1 / 2) * v"
    using assms(1,2,4) by (intro mult_right_mono) auto
  then have up: "g \<le> 29 * 10 ^ 13 + 9 * 10 ^ 12"
    using assms(3,5) by (simp add: g_def)
  have "- (1 / 2) * v \<le> (r - 1 / 2) * v"
    using assms(1,2,4) by (intro mult_right_mono) auto
  then have lo: "0 \<le> g"
    using assms(5,6) by (simp add: g_def)
  have s1: "derive_status (Num g) config = ''normal''"
    using up by (simp add: derive_status_def th)
  have "g / 10 ^ 14 < 315 / 100"
    using up by simp
  moreover have "0 \<le> g / 10 ^ 14"
    using lo by simp
  ultimately have "toFixed1 (g / 10 ^ 14) \<le> 31 / 10"
    using toFixed1_le by blast
  then have "toFixed1 (g / 10 ^ 14) * 10 ^ 14 \<le> 31 * 10 ^ 13"
    by simp
  then have s2: "derive_status (persisted_value (Num g) config) config = ''normal''"
    by (simp add: derive_status_def persisted_value_def th ty)
  show ?thesis
    using s1 s2 by (simp only: g) 
qed


lemma flux_configured_normal:
  assumes "config \<in> set SENSOR_CONFIGS" "cfg_sensorType config = ''neutron_flux''"
    "0 \<le> r" "r < 1"
  shows "derive_status (generate_value r config) config = ''normal''
    \<and> derive_status (persisted_value (generate_value r config) config) config = ''normal''"
proof -
  from flux_members [OF assms(1,2)] show ?thesis
  proof
    assume "config = mk_config ''NEUT-FLUX-01'' ''neutron_flux'' (''n/cm'' @ [CHR 0xB2] @ ''s'')
        (28 * 10 ^ 13) (15 * 10 ^ 12) (32 * 10 ^ 13) (38 * 10 ^ 13) ''AWS''"
    then show ?thesis
      by (rule flux_normal [OF assms(3,4), rotated -1]) simp_all
  next
    assume "config = mk_config ''NEUT-FLUX-02'' ''neutron_flux'' (''n/cm'' @ [CHR 0xB2] @ ''s'')
        (29 * 10 ^ 13) (18 * 10 ^ 12) (32 * 10 ^ 13) (38 * 10 ^ 13) ''Ubuntu''"
    then show ?thesis
      by (rule flux_normal [OF assms(3,4), rotated -1]) simp_all
  qed
qed

lemma reading_fields:
  "sd_value (generateSensorData_reading r config) = persisted_value (generate_value r config) config"
  "status (generateSensorData_reading r config) = derive_status (generate_value r config) config"
  by (simp_all add: generateSensorData_reading_def Let_def)

lemma flux_09: "SENSOR_CONFIGS ! 8 =
  mk_config ''NEUT-FLUX-01'' ''neutron_flux'' (''n/cm'' @ [CHR 0xB2] @ ''s'')
        (28 * 10 ^ 13) (15 * 10 ^ 12) (32 * 10 ^ 13) (38 * 10 ^ 13) ''AWS''"
  by (simp add: SENSOR_CONFIGS_def)

text \<open>
  C10, as the code has it. For a neutron flux sensor the value written is the value drawn,
  rounded to one decimal in units of 1e14, and the status written is the status of the
  value drawn, before the rounding. For the two configured neutron flux sensors every
  value drawn is below the threshold 3.2e14: the status written and the status of the
  value written are both "normal". The two differ only for a value outside the range
  drawn, such as 3.21e14: "warning" for the value, "normal" for its rounding 3.2e14.
\<close>

theorem neutron_flux_rounding:
  "cfg_sensorType config = ''neutron_flux'' \<Longrightarrow>
   sd_value (generateSensorData_reading r config) =
     js_mul (parseFloat_toFixed1 (js_div (generate_value r config) (Num (10 ^ 14)))) (Num (10 ^ 14))
   \<and> status (generateSensorData_reading r config) = derive_status (generate_value r config) config
   \<and> (config \<in> set SENSOR_CONFIGS \<and> 0 \<le> r \<and> r < 1 \<longrightarrow>
        status (generateSensorData_reading r config) = ''normal''
        \<and> derive_status (sd_value (generateSensorData_reading r config)) config = ''normal'')
   \<and> derive_status (Num (321 * 10 ^ 12)) (SENSOR_CONFIGS ! 8) = ''warning''
   \<and> persisted_value (Num (321 * 10 ^ 12)) (SENSOR_CONFIGS ! 8) = Num (32 * 10 ^ 13)
   \<and> derive_status (persisted_value (Num (321 * 10 ^ 12)) (SENSOR_CONFIGS ! 8)) (SENSOR_CONFIGS ! 8)
       = ''normal''"
proof -
  assume ty: "cfg_sensorType config = ''neutron_flux''"
  have a: "sd_value (generateSensorData_reading r config) =
     js_mul (parseFloat_toFixed1 (js_div (generate_value r config) (Num (10 ^ 14)))) (Num (10 ^ 14))"
    by (simp add: reading_fields persisted_value_def ty)
  have b: "config \<in> set SENSOR_CONFIGS \<and> 0 \<le> r \<and> r < 1 \<longrightarrow>
        status (generateSensorData_reading r config) = ''normal''
        \<and> derive_status (sd_value (generateSensorData_reading r config)) config = ''normal''"
    using flux_configured_normal [OF _ ty] by (simp add: reading_fields)
  have c: "derive_status (Num (321 * 10 ^ 12)) (SENSOR_CONFIGS ! 8) = ''warning''"
    by (simp add: flux_09 derive_status_def mk_config_def)
  have d: "persisted_value (Num (321 * 10 ^ 12)) (SENSOR_CONFIGS ! 8) = Num (32 * 10 ^ 13)"
    by (simp add: flux_09 persisted_value_def mk_config_def toFixed1_def)
  have e: "derive_status (Num (32 * 10 ^ 13)) (SENSOR_CONFIGS ! 8) = ''normal''"
    by (simp add: flux_09 derive_status_def mk_config_def)
  show ?thesis
    using a b c e by (simp only: d reading_fields(2))
qed

theorem neutron_flux_rounding_witness:
  "cfg_sensorType (SENSOR_CONFIGS ! 8) = ''neutron_flux''
   \<and> SENSOR_CONFIGS ! 8 \<in> set SENSOR_CONFIGS
   \<and> generate_value (3 / 4) (SENSOR_CONFIGS ! 8) = Num (28375 * 10 ^ 10)
   \<and> sd_value (generateSensorData_reading (3 / 4) (SENSOR_CONFIGS ! 8)) = Num (28 * 10 ^ 13)
   \<and> status (generateSensorData_reading (3 / 4) (SENSOR_CONFIGS ! 8)) = ''normal''
   \<and> derive_status (sd_value (generateSensorData_reading (3 / 4) (SENSOR_CONFIGS ! 8)))
        (SENSOR_CONFIGS ! 8) = ''normal''"
proof -
  have ty: "cfg_sensorType (SENSOR_CONFIGS ! 8) = ''neutron_flux''"
    by (simp add: flux_09 mk_config_def)
  have m: "SENSOR_CONFIGS ! 8 \<in> set SENSOR_CONFIGS"
    by (rule nth_mem) (simp add: SENSOR_CONFIGS_def)
  have g: "generate_value (3 / 4) (SENSOR_CONFIGS ! 8) = Num (28375 * 10 ^ 10)"
    by (simp add: flux_09 generate_value_def mk_config_def)
  have f: "js_mul (parseFloat_toFixed1 (js_div (Num (28375 * 10 ^ 10)) (Num (10 ^ 14)))) (Num (10 ^ 14))
      = Num (28 * 10 ^ 13)"
    by (simp add: toFixed1_def)
  have r: "(0::real) \<le> 3 / 4 \<and> (3 / 4 :: real) < 1"
    by simp
  note rounding = neutron_flux_rounding [OF ty, of "3 / 4"]
  from rounding have v: "sd_value (generateSensorData_reading (3 / 4) (SENSOR_CONFIGS ! 8)) =
     js_mul (parseFloat_toFixed1 (js_div (generate_value (3 / 4) (SENSOR_CONFIGS ! 8)) (Num (10 ^ 14))))
       (Num (10 ^ 14))"
    by blast
  from rounding m r have n: "status (generateSensorData_reading (3 / 4) (SENSOR_CONFIGS ! 8)) = ''normal''
     \<and> derive_status (sd_value (generateSensorData_reading (3 / 4) (SENSOR_CONFIGS ! 8)))
        (SENSOR_CONFIGS ! 8) = ''normal''"
    by blast
  have v': "sd_value (generateSensorData_reading (3 / 4) (SENSOR_CONFIGS ! 8)) = Num (28 * 10 ^ 13)"
    by (simp only: v g f)
  from ty m g v' n show ?thesis
    by blast
qed

text \<open>
  The claim as written fails: no value the two configured neutron flux sensors can draw
  gives a status that differs from the status of the value written.
\<close>

theorem neutron_flux_divergence_counterexample:
  "\<not> (\<exists>config r. config \<in> set SENSOR_CONFIGS \<and> cfg_sensorType config = ''neutron_flux''
         \<and> 0 \<le> r \<and> r < 1
         \<and> status (generateSensorData_reading r config)
             \<noteq> derive_status (sd_value (generateSensorData_reading r config)) config)"
  using flux_configured_normal by (auto simp add: reading_fields)

section \<open>Recommendation confidence\<close>

lemma patterns_confidence_map:
  "map confidence nuclearAnalysisPatterns =
     [Num 91, Num 88, Num 93, Num 85, Num 97, Num 82, Num 94, Num 79, Num 98, Num 96]"
  by (simp add: nuclearAnalysisPatterns_def)

lemma patterns_confidence:
  assumes "p \<in> set nuclearAnalysisPatterns"
  shows "\<exists>c. confidence p = Num c"
proof -
  from assms have "confidence p \<in> set (map confidence nuclearAnalysisPatterns)"
    by simp
  then show ?thesis
    by (simp only: patterns_confidence_map) auto
qed

lemma array_get_mem: "array_get xs i = Some x \<Longrightarrow> x \<in> set xs"
  by (cases i) (auto split: if_splits)

lemma finalConfidence_explicit:
  "finalConfidence (Num a) (confidenceVariation r) =
     Num (max 75 (min 99 (a + (of_int \<lfloor>r * 8\<rfloor> - 4))))"
  by (simp add: finalConfidence_def confidenceVariation_def)

lemma array_get_index:
  assumes "array_get xs (js_floor (js_mul (Num r) (Num (real (length xs))))) = Some x"
  shows "x = xs ! nat \<lfloor>r * real (length xs)\<rfloor>"
  using assms by (simp split: if_splits)

text \<open>
  C8. Every recommendation a tick of \<open>performAiAnalysis\<close> produces is one template with
  its confidence replaced: the template's confidence plus the jitter
  \<open>Math.floor(Math.random() * 8) - 4\<close>, clamped from below at 75 and from above at 99. It
  is a number between 75 and 99, hence within 0 to 100. The jitter is an integer from -4
  to 3, within 4 of zero.
\<close>

theorem performAiAnalysis_confidence:
  assumes "performAiAnalysis r1 r2 r3 = Inr (Some reco)"
  shows "\<exists>analysis a. analysis = nuclearAnalysisPatterns ! nat \<lfloor>r2 * 10\<rfloor>
            \<and> analysis \<in> set nuclearAnalysisPatterns
            \<and> confidence analysis = Num a
            \<and> reco = analysis\<lparr>confidence := Num (max 75 (min 99 (a + (of_int \<lfloor>r3 * 8\<rfloor> - 4))))\<rparr>
            \<and> 75 \<le> max 75 (min 99 (a + (of_int \<lfloor>r3 * 8\<rfloor> - 4)))
            \<and> max 75 (min 99 (a + (of_int \<lfloor>r3 * 8\<rfloor> - 4))) \<le> 99
            \<and> 0 \<le> max 75 (min 99 (a + (of_int \<lfloor>r3 * 8\<rfloor> - 4)))
            \<and> max 75 (min 99 (a + (of_int \<lfloor>r3 * 8\<rfloor> - 4))) \<le> 100
            \<and> (0 \<le> r3 \<and> r3 < 1 \<longrightarrow> - 4 \<le> \<lfloor>r3 * 8\<rfloor> - 4 \<and> \<lfloor>r3 * 8\<rfloor> - 4 \<le> 3)"
proof -
  from assms obtain analysis where
    a: "array_get nuclearAnalysisPatterns
          (js_floor (js_mul (Num r2) (Num (real (length nuclearAnalysisPatterns))))) = Some analysis"
    and r: "reco = \<lparr>title = title analysis, description = description analysis,
                    priority = priority analysis,
                    confidence = finalConfidence (confidence analysis) (confidenceVariation r3),
                    category = category analysis\<rparr>"
    by (auto simp add: performAiAnalysis_def Let_def split: if_splits option.splits)
  from a have m: "analysis \<in> set nuclearAnalysisPatterns"
    by (rule array_get_mem)
  have "analysis = nuclearAnalysisPatterns ! nat \<lfloor>r2 * real (length nuclearAnalysisPatterns)\<rfloor>"
    using a by (rule array_get_index)
  then have i: "analysis = nuclearAnalysisPatterns ! nat \<lfloor>r2 * 10\<rfloor>"
    by (simp add: nuclearAnalysisPatterns_def)
  from m obtain a0 where a0: "confidence analysis = Num a0"
    using patterns_confidence by blast
  have e: "reco = analysis\<lparr>confidence := Num (max 75 (min 99 (a0 + (of_int \<lfloor>r3 * 8\<rfloor> - 4))))\<rparr>"
    by (simp add: r a0 finalConfidence_explicit)
  have j: "0 \<le> r3 \<and> r3 < 1 \<longrightarrow> - 4 \<le> \<lfloor>r3 * 8\<rfloor> - 4 \<and> \<lfloor>r3 * 8\<rfloor> - 4 \<le> 3"
  proof
    assume "0 \<le> r3 \<and> r3 < 1"
    then have "0 \<le> r3 * 8" "r3 * 8 < 8" by simp_all
    then have "0 \<le> \<lfloor>r3 * 8\<rfloor>" "\<lfloor>r3 * 8\<rfloor> < 8" by (simp_all add: floor_less_iff)
    then show "- 4 \<le> \<lfloor>r3 * 8\<rfloor> - 4 \<and> \<lfloor>r3 * 8\<rfloor> - 4 \<le> 3" by simp
  qed
  have b: "75 \<le> max 75 (min 99 (a0 + (of_int \<lfloor>r3 * 8\<rfloor> - 4)))
       \<and> max 75 (min 99 (a0 + (of_int \<lfloor>r3 * 8\<rfloor> - 4))) \<le> 99
       \<and> 0 \<le> max 75 (min 99 (a0 + (of_int \<lfloor>r3 * 8\<rfloor> - 4)))
       \<and> max 75 (min 99 (a0 + (of_int \<lfloor>r3 * 8\<rfloor> - 4))) \<le> (100::real)"
    by (simp add: max_def min_def)
  from i m a0 e j b show ?thesis by blast
qed

theorem performAiAnalysis_confidence_witness:
  "performAiAnalysis (1 / 10) (85 / 100) (99 / 100) =
     Inr (Some ((nuclearAnalysisPatterns ! 8)\<lparr>confidence := Num 99\<rparr>))
   \<and> confidence (nuclearAnalysisPatterns ! 8) = Num 98
   \<and> max 75 (min 99 (98 + (of_int \<lfloor>(99 / 100 :: real) * 8\<rfloor> - 4))) = (99 :: real)
   \<and> performAiAnalysis (1 / 10) (75 / 100) 0 =
     Inr (Some ((nuclearAnalysisPatterns ! 7)\<lparr>confidence := Num 75\<rparr>))
   \<and> (\<exists>a. (nuclearAnalysisPatterns ! 8)\<lparr>confidence := Num 99\<rparr> =
          (nuclearAnalysisPatterns ! 8)
            \<lparr>confidence := Num (max 75 (min 99 (a + (of_int \<lfloor>(99 / 100 :: real) * 8\<rfloor> - 4))))\<rparr>)"
proof -
  have e: "performAiAnalysis (1 / 10) (85 / 100) (99 / 100) =
     Inr (Some ((nuclearAnalysisPatterns ! 8)\<lparr>confidence := Num 99\<rparr>))"
    by (simp add: performAiAnalysis_def nuclearAnalysisPatterns_def finalConfidence_def
        confidenceVariation_def)
  have f: "performAiAnalysis (1 / 10) (75 / 100) 0 =
     Inr (Some ((nuclearAnalysisPatterns ! 7)\<lparr>confidence := Num 75\<rparr>))"
    by (simp add: performAiAnalysis_def nuclearAnalysisPatterns_def finalConfidence_def
        confidenceVariation_def)
  have c: "confidence (nuclearAnalysisPatterns ! 8) = Num 98"
    by (simp add: nuclearAnalysisPatterns_def)
  have x: "max 75 (min 99 (98 + (of_int \<lfloor>(99 / 100 :: real) * 8\<rfloor> - 4))) = (99 :: real)"
    by simp
  have n: "nat \<lfloor>(85 / 100 :: real) * 10\<rfloor> = 8"
    by simp
  from performAiAnalysis_confidence [OF e] have
    "\<exists>a. (nuclearAnalysisPatterns ! 8)\<lparr>confidence := Num 99\<rparr> =
          (nuclearAnalysisPatterns ! 8)
            \<lparr>confidence := Num (max 75 (min 99 (a + (of_int \<lfloor>(99 / 100 :: real) * 8\<rfloor> - 4))))\<rparr>"
    by (simp only: n) blast
  with e f c x show ?thesis by blast
qed

section \<open>The latest reading of every sensor\<close>

lemma latest_inv_empty: "latest_inv [] []"
  by (simp add: latest_inv_def)

lemma find_snoc_old: "find P xs = Some r \<Longrightarrow> find P (xs @ [d]) = Some r"
  by (induction xs) (auto split: if_splits)

lemma find_snoc_new: "\<forall>x\<in>set xs. \<not> P x \<Longrightarrow> P d \<Longrightarrow> find P (xs @ [d]) = Some d"
  by (induction xs) auto

lemma map_of_None_keys:
  "fst ` set g = nodeId ` set table \<Longrightarrow> map_of g k = None \<Longrightarrow> \<forall>x\<in>set table. nodeId x \<noteq> k"
  by (metis image_eqI map_of_eq_None_iff)

lemma latest_inv_step:
  assumes "latest_inv table g"
  shows "latest_inv (table @ [d]) (grouped_step g d)"
proof (cases "map_of g (nodeId d)")
  case None
  from assms have dist: "distinct (map fst g)" and keys: "fst ` set g = nodeId ` set table"
    and props: "\<And>k r. map_of g k = Some r \<Longrightarrow>
            nodeId r = k \<and> r \<in> set table
            \<and> (\<forall>x\<in>set table. nodeId x = k \<longrightarrow> sd_timestamp x \<le> sd_timestamp r)
            \<and> find (\<lambda>x. nodeId x = k \<and> sd_timestamp x = sd_timestamp r) table = Some r"
    by (auto simp add: latest_inv_def)
  have fresh: "\<forall>x\<in>set table. nodeId x \<noteq> nodeId d"
    using keys None by (rule map_of_None_keys)
  have g': "grouped_step g d = AList.update (nodeId d) d g"
    using None by (simp add: grouped_step_def)
  have m: "map_of (grouped_step g d) = (map_of g)(nodeId d \<mapsto> d)"
    by (simp add: g' update_conv')
  show ?thesis
    unfolding latest_inv_def
  proof (intro conjI allI impI)
    show "distinct (map fst (grouped_step g d))"
      using dist by (simp add: g' distinct_update)
    show "fst ` set (grouped_step g d) = nodeId ` set (table @ [d])"
      using keys by (auto simp add: g' dom_update)
  next
    fix k r assume a: "map_of (grouped_step g d) k = Some r"
    show "nodeId r = k" using a props by (auto simp add: m split: if_splits)
    show "r \<in> set (table @ [d])" using a props by (auto simp add: m split: if_splits)
    show "\<forall>x\<in>set (table @ [d]). nodeId x = k \<longrightarrow> sd_timestamp x \<le> sd_timestamp r"
      using a props fresh by (auto simp add: m split: if_splits)
    show "find (\<lambda>x. nodeId x = k \<and> sd_timestamp x = sd_timestamp r) (table @ [d]) = Some r"
    proof (cases "k = nodeId d")
      case True
      then have "r = d" using a by (simp add: m)
      with fresh True show ?thesis by (auto intro!: find_snoc_new)
    next
      case False
      then have "map_of g k = Some r" using a by (simp add: m)
      with props show ?thesis by (auto intro!: find_snoc_old)
    qed
  qed
next
  case (Some existing)
  from assms have dist: "distinct (map fst g)" and keys: "fst ` set g = nodeId ` set table"
    and props: "\<And>k r. map_of g k = Some r \<Longrightarrow>
            nodeId r = k \<and> r \<in> set table
            \<and> (\<forall>x\<in>set table. nodeId x = k \<longrightarrow> sd_timestamp x \<le> sd_timestamp r)
            \<and> find (\<lambda>x. nodeId x = k \<and> sd_timestamp x = sd_timestamp r) table = Some r"
    by (auto simp add: latest_inv_def)
  note ex = props [OF Some]
  have key_in: "nodeId d \<in> fst ` set g"
    using Some by (metis domI dom_map_of_conv_image_fst)
  show ?thesis
  proof (cases "sd_timestamp existing < sd_timestamp d")
    case True
    have g': "grouped_step g d = AList.update (nodeId d) d g"
      using Some True by (simp add: grouped_step_def)
    have m: "map_of (grouped_step g d) = (map_of g)(nodeId d \<mapsto> d)"
      by (simp add: g' update_conv')
    have older: "\<forall>x\<in>set table. nodeId x = nodeId d \<longrightarrow> sd_timestamp x < sd_timestamp d"
      using ex True by fastforce
    show ?thesis
      unfolding latest_inv_def
    proof (intro conjI allI impI)
      show "distinct (map fst (grouped_step g d))"
        using dist by (simp add: g' distinct_update)
      show "fst ` set (grouped_step g d) = nodeId ` set (table @ [d])"
        using keys key_in by (auto simp add: g' dom_update)
    next
      fix k r assume a: "map_of (grouped_step g d) k = Some r"
      show "nodeId r = k" using a props by (auto simp add: m split: if_splits)
      show "r \<in> set (table @ [d])" using a props by (auto simp add: m split: if_splits)
      show "\<forall>x\<in>set (table @ [d]). nodeId x = k \<longrightarrow> sd_timestamp x \<le> sd_timestamp r"
      proof (cases "k = nodeId d")
        case True
        then have "r = d" using a by (simp add: m)
        then show ?thesis using older True by fastforce
      next
        case False
        then have "map_of g k = Some r" using a by (simp add: m)
        then show ?thesis using props False by auto
      qed
      show "find (\<lambda>x. nodeId x = k \<and> sd_timestamp x = sd_timestamp r) (table @ [d]) = Some r"
      proof (cases "k = nodeId d")
        case True
        then have "r = d" using a by (simp add: m)
        with older True show ?thesis by (auto intro!: find_snoc_new)
      next
        case False
        then have "map_of g k = Some r" using a by (simp add: m)
        with props show ?thesis by (auto intro!: find_snoc_old)
      qed
    qed
  next
    case False
    have g': "grouped_step g d = g"
      using Some False by (simp add: grouped_step_def)
    show ?thesis
      unfolding latest_inv_def g'
    proof (intro conjI allI impI)
      show "distinct (map fst g)" by (rule dist)
      show "fst ` set g = nodeId ` set (table @ [d])"
        using keys key_in by auto
    next
      fix k r assume a: "map_of g k = Some r"
      note p = props [OF a]
      show "nodeId r = k" using p by simp
      show "r \<in> set (table @ [d])" using p by simp
      show "\<forall>x\<in>set (table @ [d]). nodeId x = k \<longrightarrow> sd_timestamp x \<le> sd_timestamp r"
      proof (cases "k = nodeId d")
        case True
        then have "r = existing" using a Some by simp
        then show ?thesis using p False by auto
      next
        case False
        then show ?thesis using p by auto
      qed
      show "find (\<lambda>x. nodeId x = k \<and> sd_timestamp x = sd_timestamp r) (table @ [d]) = Some r"
        using p by (auto intro!: find_snoc_old)
    qed
  qed
qed

lemma latest_inv_foldl: "latest_inv table (foldl grouped_step [] table)"
proof (induction table rule: rev_induct)
  case Nil
  show ?case by (simp add: latest_inv_empty)
next
  case (snoc d table)
  then show ?case by (simp add: latest_inv_step)
qed

lemma keyed_values:
  assumes "distinct (map fst g)" "\<And>k r. map_of g k = Some r \<Longrightarrow> nodeId r = k"
  shows "map nodeId (map snd g) = map fst g"
proof -
  have "\<And>p. p \<in> set g \<Longrightarrow> nodeId (snd p) = fst p"
    using assms by (metis map_of_is_SomeI prod.collapse)
  then show ?thesis by simp
qed

lemma values_mem:
  assumes "distinct (map fst g)" "r \<in> set (map snd g)"
  shows "\<exists>k. map_of g k = Some r"
  using assms by (metis (no_types, lifting) imageE list.set_map map_of_is_SomeI prod.collapse)


text \<open>
  C6. Whatever rows are stored, the result of \<open>getLatestSensorData\<close> holds every sensor
  identifier of the table once, and the reading it returns for an identifier is a stored
  one of the latest timestamp among that identifier's readings; among readings of that
  timestamp it is the one stored first.
\<close>

theorem getLatestSensorData_latest:
  "distinct (map nodeId (getLatestSensorData table))
   \<and> set (map nodeId (getLatestSensorData table)) = set (map nodeId table)
   \<and> (\<forall>r\<in>set (getLatestSensorData table).
         r \<in> set table
         \<and> (\<forall>x\<in>set table. nodeId x = nodeId r \<longrightarrow> sd_timestamp x \<le> sd_timestamp r)
         \<and> find (\<lambda>x. nodeId x = nodeId r \<and> sd_timestamp x = sd_timestamp r) table = Some r)"
proof -
  let ?g = "foldl grouped_step [] table"
  have inv: "latest_inv table ?g" by (rule latest_inv_foldl)
  then have dist: "distinct (map fst ?g)" and keys: "fst ` set ?g = nodeId ` set table"
    and props: "\<And>k r. map_of ?g k = Some r \<Longrightarrow>
            nodeId r = k \<and> r \<in> set table
            \<and> (\<forall>x\<in>set table. nodeId x = k \<longrightarrow> sd_timestamp x \<le> sd_timestamp r)
            \<and> find (\<lambda>x. nodeId x = k \<and> sd_timestamp x = sd_timestamp r) table = Some r"
    by (auto simp add: latest_inv_def)
  have ids: "map nodeId (getLatestSensorData table) = map fst ?g"
    unfolding getLatestSensorData_def using dist props by (intro keyed_values) auto
  have a: "distinct (map nodeId (getLatestSensorData table))"
    using dist by (simp only: ids)
  have b: "set (map nodeId (getLatestSensorData table)) = set (map nodeId table)"
    using keys by (simp only: ids) simp
  have c: "\<forall>r\<in>set (getLatestSensorData table).
         r \<in> set table
         \<and> (\<forall>x\<in>set table. nodeId x = nodeId r \<longrightarrow> sd_timestamp x \<le> sd_timestamp r)
         \<and> find (\<lambda>x. nodeId x = nodeId r \<and> sd_timestamp x = sd_timestamp r) table = Some r"
  proof
    fix r assume "r \<in> set (getLatestSensorData table)"
    then obtain k where k: "map_of ?g k = Some r"
      unfolding getLatestSensorData_def using values_mem [OF dist] by blast
    from props [OF k] show "r \<in> set table
         \<and> (\<forall>x\<in>set table. nodeId x = nodeId r \<longrightarrow> sd_timestamp x \<le> sd_timestamp r)
         \<and> find (\<lambda>x. nodeId x = nodeId r \<and> sd_timestamp x = sd_timestamp r) table = Some r"
      by simp
  qed
  from a b c show ?thesis by blast
qed


theorem getLatestSensorData_latest_witness:
  "getLatestSensorData sample_table = [sample_row ''A'' 3 3 20, sample_row ''B'' 2 2 10]
   \<and> distinct (map nodeId (getLatestSensorData sample_table))
   \<and> sample_row ''A'' 3 3 20 \<in> set sample_table
   \<and> sample_row ''A'' 4 4 20 \<in> set sample_table
   \<and> find (\<lambda>x. nodeId x = ''A'' \<and> sd_timestamp x = 20) sample_table = Some (sample_row ''A'' 3 3 20)"
proof -
  have e: "getLatestSensorData sample_table = [sample_row ''A'' 3 3 20, sample_row ''B'' 2 2 10]"
    by (simp add: getLatestSensorData_def sample_table_def grouped_step_def sample_row_def)
  have m: "sample_row ''A'' 3 3 20 \<in> set (getLatestSensorData sample_table)"
    by (simp only: e) simp
  have k: "nodeId (sample_row ''A'' 3 3 20) = ''A''" "sd_timestamp (sample_row ''A'' 3 3 20) = 20"
    by (simp_all add: sample_row_def)
  have n: "sample_row ''A'' 4 4 20 \<in> set sample_table"
    by (simp add: sample_table_def)
  note latest = getLatestSensorData_latest [of sample_table]
  from latest have d: "distinct (map nodeId (getLatestSensorData sample_table))"
    by blast
  from latest m have "sample_row ''A'' 3 3 20 \<in> set sample_table
     \<and> find (\<lambda>x. nodeId x = nodeId (sample_row ''A'' 3 3 20)
                \<and> sd_timestamp x = sd_timestamp (sample_row ''A'' 3 3 20)) sample_table
         = Some (sample_row ''A'' 3 3 20)"
    by blast
  then have f: "sample_row ''A'' 3 3 20 \<in> set sample_table
     \<and> find (\<lambda>x. nodeId x = ''A'' \<and> sd_timestamp x = 20) sample_table = Some (sample_row ''A'' 3 3 20)"
    by (simp only: k)
  from e d f n show ?thesis by blast
qed

section \<open>Writing a reading and reading it back\<close>


















section \<open>Deactivating an alert that does not exist\<close>

lemma int4_integer:
  "int4 (Num (of_int i)) = (if - (2 ^ 31) \<le> i \<and> i < 2 ^ 31 then Some i else None)"
  by (simp add: int4_def)

lemma deactivateAlert_missing:
  "\<forall>a\<in>set table. al_id a \<noteq> i \<Longrightarrow>
   map (\<lambda>a. if al_id a = i then a\<lparr>isActive := False\<rparr> else a) table = table"
  by (induction table) auto

text \<open>
  C9, as the code has it. Deactivating an identifier no alert has is answered like any
  other deactivation: when the identifier is an integer of the column's range, with
  \<^verbatim>\<open>{ success: true }\<close> and the status 200, as the update selects no row and
  the route has no "not found" answer; when it is NaN or an integer outside 32 bits,
  with the status 500 and \<^verbatim>\<open>{ error: 'Failed to deactivate alert' }\<close>, as the
  storage call rejects. The answer is never 404, and the stored alerts are unchanged.
\<close>

theorem delete_alert_missing:
  "\<forall>a\<in>set table. id' \<noteq> Num (of_int (al_id a)) \<Longrightarrow>
   delete_alert_route id' table =
     (if int4 id' = None
      then (\<lparr>status_code = 500, body = Error_message ''Failed to deactivate alert''\<rparr>, table)
      else (\<lparr>status_code = 200, body = Success_true\<rparr>, table))
   \<and> status_code (fst (delete_alert_route id' table)) \<noteq> 404
   \<and> int4 NaN = None
   \<and> (\<forall>i. int4 (Num (of_int i)) = (if - (2 ^ 31) \<le> i \<and> i < 2 ^ 31 then Some i else None))"
proof -
  assume a: "\<forall>a\<in>set table. id' \<noteq> Num (of_int (al_id a))"
  have r: "delete_alert_route id' table =
     (if int4 id' = None
      then (\<lparr>status_code = 500, body = Error_message ''Failed to deactivate alert''\<rparr>, table)
      else (\<lparr>status_code = 200, body = Success_true\<rparr>, table))"
  proof (cases "int4 id'")
    case None
    then show ?thesis by (simp add: delete_alert_route_def deactivateAlert_def)
  next
    case (Some i)
    then have "id' = Num (of_int i)"
      by (cases id') (auto simp add: int4_def split: if_splits)
    with a have "\<forall>a\<in>set table. al_id a \<noteq> i" by auto
    then have "map (\<lambda>a. if al_id a = i then a\<lparr>isActive := False\<rparr> else a) table = table"
      by (rule deactivateAlert_missing)
    with Some show ?thesis by (simp add: delete_alert_route_def deactivateAlert_def)
  qed
  have n: "status_code (fst (delete_alert_route id' table)) \<noteq> 404"
    by (simp add: r)
  have "int4 NaN = None" by (simp add: int4_def)
  with r n int4_integer show ?thesis by blast
qed

theorem delete_alert_missing_witness:
  "delete_alert_route (Num 42) [sample_alert 1 ''CORE-TEMP-01'' True] =
     (\<lparr>status_code = 200, body = Success_true\<rparr>, [sample_alert 1 ''CORE-TEMP-01'' True])
   \<and> delete_alert_route (Num 2147483648) [sample_alert 1 ''CORE-TEMP-01'' True] =
       (\<lparr>status_code = 500, body = Error_message ''Failed to deactivate alert''\<rparr>,
        [sample_alert 1 ''CORE-TEMP-01'' True])
   \<and> delete_alert_route NaN [sample_alert 1 ''CORE-TEMP-01'' True] =
       (\<lparr>status_code = 500, body = Error_message ''Failed to deactivate alert''\<rparr>,
        [sample_alert 1 ''CORE-TEMP-01'' True])"
proof -
  have a: "\<forall>a\<in>set [sample_alert 1 ''CORE-TEMP-01'' True]. Num 42 \<noteq> Num (of_int (al_id a))"
    by (simp add: sample_alert_def)
  have b: "\<forall>a\<in>set [sample_alert 1 ''CORE-TEMP-01'' True]. Num 2147483648 \<noteq> Num (of_int (al_id a))"
    by (simp add: sample_alert_def)
  have c: "\<forall>a\<in>set [sample_alert 1 ''CORE-TEMP-01'' True]. NaN \<noteq> Num (of_int (al_id a))"
    by simp
  have i: "int4 (Num 42) = Some 42" "int4 (Num 2147483648) = None" "int4 NaN = None"
    by (simp_all add: int4_def)
  from delete_alert_missing [OF a] delete_alert_missing [OF b] delete_alert_missing [OF c]
  show ?thesis by (simp add: i)
qed

text \<open>
  The claim as written fails: for the identifier 42, which no stored alert has, the
  route answers success with the status 200, not a "not found" result (404).
\<close>

theorem delete_alert_missing_counterexample:
  "delete_alert_route (Num 42) [sample_alert 1 ''CORE-TEMP-01'' True] =
     (\<lparr>status_code = 200, body = Success_true\<rparr>, [sample_alert 1 ''CORE-TEMP-01'' True])
   \<and> status_code (fst (delete_alert_route (Num 42) [sample_alert 1 ''CORE-TEMP-01'' True])) \<noteq> 404
   \<and> body (fst (delete_alert_route (Num 42) [sample_alert 1 ''CORE-TEMP-01'' True])) = Success_true"
  by (simp add: delete_alert_route_def deactivateAlert_def int4_def sample_alert_def)

section \<open>At most one active alert for a sensor\<close>

lemma set_getActiveAlerts: "set (getActiveAlerts table) = set (filter isActive table)"
  by (simp add: getActiveAlerts_def)

lemma hasActiveAlert_iff:
  "hasActiveAlert config (getActiveAlerts table) =
     (cfg_nodeId config \<in> set (map sensorNodeId (filter isActive table)))"
  by (force simp add: hasActiveAlert_def list_ex_iff set_getActiveAlerts)

lemma pending_sensors_append:
  "pending_sensors (xs @ ys) = pending_sensors xs @ pending_sensors ys"
  by (simp add: pending_sensors_def)

lemma pending_sensors_Cons:
  "pending_sensors (x # xs) = insert_sensor x @ pending_sensors xs"
  by (simp add: pending_sensors_def)

lemma pending_sensors_split:
  "i < length ps \<Longrightarrow>
   pending_sensors ps =
     pending_sensors (take i ps) @ insert_sensor (ps ! i) @ pending_sensors (drop (Suc i) ps)"
  by (metis id_take_nth_drop pending_sensors_append pending_sensors_Cons)

lemma pending_sensors_update:
  "i < length ps \<Longrightarrow>
   pending_sensors (ps[i := x]) =
     pending_sensors (take i ps) @ insert_sensor x @ pending_sensors (drop (Suc i) ps)"
  by (simp add: upd_conv_take_nth_drop pending_sensors_append pending_sensors_Cons)

lemma pending_sensors_drop_nth:
  "pending_sensors (drop_nth i ps) =
     pending_sensors (take i ps) @ pending_sensors (drop (Suc i) ps)"
  by (simp add: drop_nth_def pending_sensors_append)

lemma active_after_deactivate:
  "map sensorNodeId (filter isActive
      (map (\<lambda>a. if al_id a = i then a\<lparr>isActive := False\<rparr> else a) table)) =
   map sensorNodeId (filter (\<lambda>a. al_id a \<noteq> i) (filter isActive table))"
  by (induction table) auto

lemma distinct_append_map_filter:
  "distinct (ps @ map f xs) \<Longrightarrow> distinct (ps @ map f (filter P xs))"
  by (induction xs) auto

text \<open>
  What a step of an admitted run keeps: the sensors of the inserts waited for and the
  sensors of the active alerts are all different.
\<close>

lemma alert_step_keeps:
  assumes "distinct (pending_sensors (aw_pending w) @ map sensorNodeId (filter isActive (aw_alerts w)))"
    and "no_read_during_insert_step w e"
  shows "distinct (pending_sensors (aw_pending (alert_step w e))
           @ map sensorNodeId (filter isActive (aw_alerts (alert_step w e))))"
proof (cases e)
  case (Evaluate k r)
  show ?thesis
    using assms(1) unfolding Evaluate
    by (simp add: Let_def pending_sensors_append pending_sensors_Cons pending_sensors_def)
next
  case (Resume i now)
  show ?thesis
  proof (cases "i < length (aw_pending w)")
    case False
    then show ?thesis using assms(1) unfolding Resume by simp
  next
    case True
    note split = pending_sensors_split [OF True]
    show ?thesis
    proof (cases "aw_pending w ! i")
      case (Await_getActiveAlerts config st)
      show ?thesis
      proof (cases "hasActiveAlert config (getActiveAlerts (aw_alerts w))")
        case has: True
        have "pending_sensors (drop_nth i (aw_pending w)) = pending_sensors (aw_pending w)"
          using split Await_getActiveAlerts by (simp add: pending_sensors_drop_nth)
        then show ?thesis
          using assms(1) True has Await_getActiveAlerts unfolding Resume by simp
      next
        case hasnt: False
        have n1: "cfg_nodeId config \<notin> set (pending_sensors (aw_pending w))"
          using assms(2) True Await_getActiveAlerts unfolding Resume
          by simp
        have n2: "cfg_nodeId config \<notin> set (map sensorNodeId (filter isActive (aw_alerts w)))"
          using hasnt by (simp only: hasActiveAlert_iff) simp
        have s: "pending_sensors (aw_pending w) =
            pending_sensors (take i (aw_pending w)) @ pending_sensors (drop (Suc i) (aw_pending w))"
          using split Await_getActiveAlerts by simp
        have "distinct (pending_sensors ((aw_pending w)
                 [i := Await_createAlert
                    \<lparr>ins_sensorNodeId = Some (cfg_nodeId config), ins_alertType = Some st,
                     ins_message = Some (alert_message config st), ins_isActive = Some True\<rparr>])
               @ map sensorNodeId (filter isActive (aw_alerts w)))"
          using assms(1) n1 n2 unfolding pending_sensors_update [OF True] s by auto
        then show ?thesis
          using True hasnt Await_getActiveAlerts unfolding Resume by (simp add: Let_def)
      qed
    next
      case (Await_createAlert a)
      have d: "distinct (pending_sensors (take i (aw_pending w)) @ insert_sensor (Await_createAlert a)
                 @ pending_sensors (drop (Suc i) (aw_pending w))
                 @ map sensorNodeId (filter isActive (aw_alerts w)))"
        using assms(1) split Await_createAlert by simp
      show ?thesis
        using d True Await_createAlert unfolding Resume
        by (auto simp add: createAlert_def Let_def pending_sensors_drop_nth
            split: option.splits)
    qed
  qed
next
  case (Acknowledge id')
  show ?thesis
  proof (cases "int4 id'")
    case None
    then show ?thesis using assms(1) unfolding Acknowledge by (simp add: deactivateAlert_def)
  next
    case (Some i)
    have d: "distinct (pending_sensors (aw_pending w)
        @ map sensorNodeId (filter (\<lambda>a. al_id a \<noteq> i) (filter isActive (aw_alerts w))))"
      using assms(1) by (rule distinct_append_map_filter)
    have p: "aw_pending (alert_step w (Acknowledge id')) = aw_pending w"
      using Some by (simp add: deactivateAlert_def)
    have t: "aw_alerts (alert_step w (Acknowledge id')) =
        map (\<lambda>a. if al_id a = i then a\<lparr>isActive := False\<rparr> else a) (aw_alerts w)"
      using Some by (simp add: deactivateAlert_def)
    show ?thesis
      unfolding Acknowledge p t active_after_deactivate by (rule d)
  qed
next
  case (Scenario_alert a now)
  show ?thesis
    using assms(1) unfolding Scenario_alert
    by (simp add: createAlert_def read_by_createAlert_def)
qed

lemma run_alerts_keeps:
  "distinct (pending_sensors (aw_pending w) @ map sensorNodeId (filter isActive (aw_alerts w)))
   \<Longrightarrow> no_read_during_insert w es
   \<Longrightarrow> distinct (pending_sensors (aw_pending (run_alerts w (take n es)))
         @ map sensorNodeId (filter isActive (aw_alerts (run_alerts w (take n es)))))"
proof (induction es arbitrary: w n)
  case Nil
  then show ?case by (simp add: run_alerts_def)
next
  case (Cons e es)
  show ?case
  proof (cases n)
    case 0
    then show ?thesis using Cons.prems(1) by (simp add: run_alerts_def)
  next
    case (Suc k)
    have "distinct (pending_sensors (aw_pending (alert_step w e))
           @ map sensorNodeId (filter isActive (aw_alerts (alert_step w e))))"
      using Cons.prems by (intro alert_step_keeps) simp_all
    moreover have "no_read_during_insert (alert_step w e) es"
      using Cons.prems(2) by simp
    ultimately have "distinct (pending_sensors (aw_pending (run_alerts (alert_step w e) (take k es)))
         @ map sensorNodeId (filter isActive (aw_alerts (run_alerts (alert_step w e) (take k es)))))"
      by (rule Cons.IH)
    then show ?thesis using Suc by (simp add: run_alerts_def)
  qed
qed

lemma read_suppressed:
  assumes "i < length (aw_pending w)" "aw_pending w ! i = Await_getActiveAlerts config st"
    "hasActiveAlert config (getActiveAlerts (aw_alerts w))"
  shows "alert_step w (Resume i now) = w\<lparr>aw_pending := drop_nth i (aw_pending w)\<rparr>"
  using assms by simp

lemma scenario_alert_rejected:
  "alert_step w (Scenario_alert a now) = w\<lparr>aw_serial := aw_serial w + 1\<rparr>"
  by (simp add: createAlert_def read_by_createAlert_def)

lemma status_at_half:
  "map (\<lambda>c. status (generateSensorData_reading (1 / 2) c)) SENSOR_CONFIGS =
     [''normal'', ''normal'', ''normal'', ''normal'', ''normal'', ''normal'', ''warning'',
      ''critical'', ''normal'', ''normal'', ''normal'', ''normal'']"
  by (simp add: SENSOR_CONFIGS_def mk_config_def generateSensorData_reading_def
      generate_value_def derive_status_def Let_def)

lemma status_at_quarter:
  "status (generateSensorData_reading (1 / 4) (SENSOR_CONFIGS ! 6)) = ''warning''"
  "status (generateSensorData_reading (1 / 4) (SENSOR_CONFIGS ! 7)) = ''critical''"
  by (simp_all add: SENSOR_CONFIGS_def mk_config_def generateSensorData_reading_def
      generate_value_def derive_status_def Let_def)

lemma evaluate_at_half:
  "alert_step w (Evaluate 0 (1 / 2)) = w" "alert_step w (Evaluate (Suc 0) (1 / 2)) = w"
  "alert_step w (Evaluate 2 (1 / 2)) = w" "alert_step w (Evaluate 3 (1 / 2)) = w"
  "alert_step w (Evaluate 4 (1 / 2)) = w" "alert_step w (Evaluate 5 (1 / 2)) = w"
  "alert_step w (Evaluate 6 (1 / 2)) =
     w\<lparr>aw_pending := aw_pending w @ [Await_getActiveAlerts (SENSOR_CONFIGS ! 6) ''warning'']\<rparr>"
  "alert_step w (Evaluate 7 (1 / 2)) =
     w\<lparr>aw_pending := aw_pending w @ [Await_getActiveAlerts (SENSOR_CONFIGS ! 7) ''critical'']\<rparr>"
  "alert_step w (Evaluate 8 (1 / 2)) = w" "alert_step w (Evaluate 9 (1 / 2)) = w"
  "alert_step w (Evaluate 10 (1 / 2)) = w" "alert_step w (Evaluate 11 (1 / 2)) = w"
proof -
  have l: "length SENSOR_CONFIGS = 12" by (simp add: SENSOR_CONFIGS_def)
  have s: "status (generateSensorData_reading (1 / 2) (SENSOR_CONFIGS ! k)) =
      map (\<lambda>c. status (generateSensorData_reading (1 / 2) c)) SENSOR_CONFIGS ! k" if "k < 12" for k
    using that l by simp
  show "alert_step w (Evaluate 0 (1 / 2)) = w" "alert_step w (Evaluate (Suc 0) (1 / 2)) = w"
    "alert_step w (Evaluate 2 (1 / 2)) = w" "alert_step w (Evaluate 3 (1 / 2)) = w"
    "alert_step w (Evaluate 4 (1 / 2)) = w" "alert_step w (Evaluate 5 (1 / 2)) = w"
    "alert_step w (Evaluate 6 (1 / 2)) =
       w\<lparr>aw_pending := aw_pending w @ [Await_getActiveAlerts (SENSOR_CONFIGS ! 6) ''warning'']\<rparr>"
    "alert_step w (Evaluate 7 (1 / 2)) =
       w\<lparr>aw_pending := aw_pending w @ [Await_getActiveAlerts (SENSOR_CONFIGS ! 7) ''critical'']\<rparr>"
    "alert_step w (Evaluate 8 (1 / 2)) = w" "alert_step w (Evaluate 9 (1 / 2)) = w"
    "alert_step w (Evaluate 10 (1 / 2)) = w" "alert_step w (Evaluate 11 (1 / 2)) = w"
    by (simp_all add: l s status_at_half Let_def)
qed

lemma evaluate_at_quarter:
  "alert_step w (Evaluate 6 (1 / 4)) =
     w\<lparr>aw_pending := aw_pending w @ [Await_getActiveAlerts (SENSOR_CONFIGS ! 6) ''warning'']\<rparr>"
  "alert_step w (Evaluate 7 (1 / 4)) =
     w\<lparr>aw_pending := aw_pending w @ [Await_getActiveAlerts (SENSOR_CONFIGS ! 7) ''critical'']\<rparr>"
proof -
  have l: "length SENSOR_CONFIGS = 12" by (simp add: SENSOR_CONFIGS_def)
  show "alert_step w (Evaluate 6 (1 / 4)) =
     w\<lparr>aw_pending := aw_pending w @ [Await_getActiveAlerts (SENSOR_CONFIGS ! 6) ''warning'']\<rparr>"
    "alert_step w (Evaluate 7 (1 / 4)) =
     w\<lparr>aw_pending := aw_pending w @ [Await_getActiveAlerts (SENSOR_CONFIGS ! 7) ''critical'']\<rparr>"
    by (simp_all add: l status_at_quarter Let_def)
qed

lemma coolant_configs:
  "SENSOR_CONFIGS ! 6 = mk_config ''COOL-PRI-01'' ''coolant_flow'' ''L/s'' 1247 30 1180 1400 ''AWS''"
  "SENSOR_CONFIGS ! 7 = mk_config ''COOL-SEC-01'' ''coolant_flow'' ''L/s'' 890 25 850 950 ''Ubuntu''"
  by (simp_all add: SENSOR_CONFIGS_def)

text \<open>
  C2, as the code has it. The sample generator, on a warning or critical status, reads
  the active alerts and inserts an alert only when none of them is for the sensor; the
  read and the insert are two storage calls. In every run in which no callback reads
  the active alerts while another callback of the same sensor waits for its insert,
  whatever else is interleaved (the callbacks of the other sensors of a tick,
  acknowledgements, the alerts of the scenario manager), every state reached has at
  most one active alert for each sensor identifier. A callback that finds an active
  alert of its sensor inserts nothing. The scenario manager makes no test before its
  inserts; the storage rejects them, as their objects have no \<open>sensorNodeId\<close>.
\<close>

theorem one_active_alert_per_sensor:
  assumes "one_active_per_sensor (aw_alerts w)" "aw_pending w = []"
    and "no_read_during_insert w es"
  shows "one_active_per_sensor (aw_alerts (run_alerts w (take n es)))
     \<and> (\<forall>w' i now config st.
          i < length (aw_pending w') \<and> aw_pending w' ! i = Await_getActiveAlerts config st
          \<and> hasActiveAlert config (getActiveAlerts (aw_alerts w')) \<longrightarrow>
          alert_step w' (Resume i now) = w'\<lparr>aw_pending := drop_nth i (aw_pending w')\<rparr>)
     \<and> (\<forall>w' a now. alert_step w' (Scenario_alert a now) = w'\<lparr>aw_serial := aw_serial w' + 1\<rparr>)"
proof -
  have "distinct (pending_sensors (aw_pending w) @ map sensorNodeId (filter isActive (aw_alerts w)))"
    using assms(1,2) by (simp add: one_active_per_sensor_def pending_sensors_def)
  then have "distinct (pending_sensors (aw_pending (run_alerts w (take n es)))
         @ map sensorNodeId (filter isActive (aw_alerts (run_alerts w (take n es)))))"
    using assms(3) by (rule run_alerts_keeps)
  then have "one_active_per_sensor (aw_alerts (run_alerts w (take n es)))"
    by (simp add: one_active_per_sensor_def)
  with read_suppressed scenario_alert_rejected show ?thesis by blast
qed

text \<open>
  A tick of the twelve sensors, each drawing 1/2: COOL-PRI-01 is at warning and
  COOL-SEC-01 at critical, the others are normal. Both callbacks read before either
  inserts, and both insert. The alert of COOL-SEC-01 is acknowledged, the scenario
  manager hands over an alert, and at the next evaluation of the two sensors the alert
  of COOL-SEC-01 is inserted anew and that of COOL-PRI-01 is not.
\<close>

theorem one_active_alert_per_sensor_witness:
  "no_read_during_insert \<lparr>aw_alerts = [], aw_serial = 0, aw_pending = []\<rparr>
     [Evaluate 0 (1 / 2), Evaluate 1 (1 / 2), Evaluate 2 (1 / 2), Evaluate 3 (1 / 2),
      Evaluate 4 (1 / 2), Evaluate 5 (1 / 2), Evaluate 6 (1 / 2), Evaluate 7 (1 / 2),
      Evaluate 8 (1 / 2), Evaluate 9 (1 / 2), Evaluate 10 (1 / 2), Evaluate 11 (1 / 2),
      Resume 0 1, Resume 1 2, Resume 1 3, Resume 0 4, Acknowledge (Num 1),
      Scenario_alert \<lparr>sa_nodeId = ''SCENARIO-CONTROL'', sa_message = ''SCENARIO ACTIVE'',
        sa_severity = ''info'', sa_isActive = True, sa_acknowledgedAt = None\<rparr> 5,
      Evaluate 6 (1 / 4), Evaluate 7 (1 / 4), Resume 1 6, Resume 0 7, Resume 0 8]
   \<and> aw_alerts (run_alerts \<lparr>aw_alerts = [], aw_serial = 0, aw_pending = []\<rparr>
     [Evaluate 0 (1 / 2), Evaluate 1 (1 / 2), Evaluate 2 (1 / 2), Evaluate 3 (1 / 2),
      Evaluate 4 (1 / 2), Evaluate 5 (1 / 2), Evaluate 6 (1 / 2), Evaluate 7 (1 / 2),
      Evaluate 8 (1 / 2), Evaluate 9 (1 / 2), Evaluate 10 (1 / 2), Evaluate 11 (1 / 2),
      Resume 0 1, Resume 1 2, Resume 1 3, Resume 0 4, Acknowledge (Num 1),
      Scenario_alert \<lparr>sa_nodeId = ''SCENARIO-CONTROL'', sa_message = ''SCENARIO ACTIVE'',
        sa_severity = ''info'', sa_isActive = True, sa_acknowledgedAt = None\<rparr> 5,
      Evaluate 6 (1 / 4), Evaluate 7 (1 / 4), Resume 1 6, Resume 0 7, Resume 0 8])
     = [\<lparr>al_id = 1, sensorNodeId = ''COOL-SEC-01'', alertType = ''critical'',
         message = ''coolant flow sensor COOL-SEC-01 critically exceeded threshold'',
         isActive = False, al_timestamp = 3\<rparr>,
        \<lparr>al_id = 2, sensorNodeId = ''COOL-PRI-01'', alertType = ''warning'',
         message = ''coolant flow sensor COOL-PRI-01  exceeded threshold'',
         isActive = True, al_timestamp = 4\<rparr>,
        \<lparr>al_id = 4, sensorNodeId = ''COOL-SEC-01'', alertType = ''critical'',
         message = ''coolant flow sensor COOL-SEC-01 critically exceeded threshold'',
         isActive = True, al_timestamp = 8\<rparr>]
   \<and> one_active_per_sensor (aw_alerts (run_alerts \<lparr>aw_alerts = [], aw_serial = 0, aw_pending = []\<rparr>
     [Evaluate 0 (1 / 2), Evaluate 1 (1 / 2), Evaluate 2 (1 / 2), Evaluate 3 (1 / 2),
      Evaluate 4 (1 / 2), Evaluate 5 (1 / 2), Evaluate 6 (1 / 2), Evaluate 7 (1 / 2),
      Evaluate 8 (1 / 2), Evaluate 9 (1 / 2), Evaluate 10 (1 / 2), Evaluate 11 (1 / 2),
      Resume 0 1, Resume 1 2, Resume 1 3, Resume 0 4, Acknowledge (Num 1),
      Scenario_alert \<lparr>sa_nodeId = ''SCENARIO-CONTROL'', sa_message = ''SCENARIO ACTIVE'',
        sa_severity = ''info'', sa_isActive = True, sa_acknowledgedAt = None\<rparr> 5,
      Evaluate 6 (1 / 4), Evaluate 7 (1 / 4), Resume 1 6, Resume 0 7, Resume 0 8]))"
proof -
  let ?w = "\<lparr>aw_alerts = [], aw_serial = 0, aw_pending = []\<rparr>"
  let ?es = "[Evaluate 0 (1 / 2), Evaluate 1 (1 / 2), Evaluate 2 (1 / 2), Evaluate 3 (1 / 2),
      Evaluate 4 (1 / 2), Evaluate 5 (1 / 2), Evaluate 6 (1 / 2), Evaluate 7 (1 / 2),
      Evaluate 8 (1 / 2), Evaluate 9 (1 / 2), Evaluate 10 (1 / 2), Evaluate 11 (1 / 2),
      Resume 0 1, Resume 1 2, Resume 1 3, Resume 0 4, Acknowledge (Num 1),
      Scenario_alert \<lparr>sa_nodeId = ''SCENARIO-CONTROL'', sa_message = ''SCENARIO ACTIVE'',
        sa_severity = ''info'', sa_isActive = True, sa_acknowledgedAt = None\<rparr> 5,
      Evaluate 6 (1 / 4), Evaluate 7 (1 / 4), Resume 1 6, Resume 0 7, Resume 0 8]"
  have i: "one_active_per_sensor (aw_alerts ?w)"
    by (simp add: one_active_per_sensor_def)
  have p: "aw_pending ?w = []"
    by simp
  have a: "no_read_during_insert ?w ?es"
    by (simp add: evaluate_at_half evaluate_at_quarter coolant_configs mk_config_def
        getActiveAlerts_def hasActiveAlert_def createAlert_def read_by_createAlert_def Let_def
        deactivateAlert_def int4_def drop_nth_def alert_message_def pending_sensors_def
        del: alert_step.simps(1))
  have r: "aw_alerts (run_alerts ?w ?es)
     = [\<lparr>al_id = 1, sensorNodeId = ''COOL-SEC-01'', alertType = ''critical'',
         message = ''coolant flow sensor COOL-SEC-01 critically exceeded threshold'',
         isActive = False, al_timestamp = 3\<rparr>,
        \<lparr>al_id = 2, sensorNodeId = ''COOL-PRI-01'', alertType = ''warning'',
         message = ''coolant flow sensor COOL-PRI-01  exceeded threshold'',
         isActive = True, al_timestamp = 4\<rparr>,
        \<lparr>al_id = 4, sensorNodeId = ''COOL-SEC-01'', alertType = ''critical'',
         message = ''coolant flow sensor COOL-SEC-01 critically exceeded threshold'',
         isActive = True, al_timestamp = 8\<rparr>]"
    by (simp add: run_alerts_def evaluate_at_half evaluate_at_quarter coolant_configs mk_config_def
        getActiveAlerts_def hasActiveAlert_def createAlert_def read_by_createAlert_def Let_def
        deactivateAlert_def int4_def drop_nth_def alert_message_def
        del: alert_step.simps(1))
  from one_active_alert_per_sensor [OF i p a, of 23]
  have "one_active_per_sensor (aw_alerts (run_alerts ?w (take 23 ?es)))"
    by (rule conjunct1)
  then have "one_active_per_sensor (aw_alerts (run_alerts ?w ?es))"
    by simp
  with a r show ?thesis by blast
qed

text \<open>
  The claim as written fails. Between the read and the insert the callback is
  suspended and nothing holds other callbacks back: COOL-SEC-01 is at critical at
  every draw, and when the callbacks of two ticks both read the active alerts before
  either has inserted, both insert, and the table holds two active alerts for the
  sensor.
\<close>

theorem overlapping_evaluations_counterexample:
  "aw_alerts (run_alerts \<lparr>aw_alerts = [], aw_serial = 0, aw_pending = []\<rparr>
      [Evaluate 7 (1 / 2), Evaluate 7 (1 / 4), Resume 0 1, Resume 1 2, Resume 0 3, Resume 0 4])
     = [\<lparr>al_id = 1, sensorNodeId = ''COOL-SEC-01'', alertType = ''critical'',
         message = ''coolant flow sensor COOL-SEC-01 critically exceeded threshold'',
         isActive = True, al_timestamp = 3\<rparr>,
        \<lparr>al_id = 2, sensorNodeId = ''COOL-SEC-01'', alertType = ''critical'',
         message = ''coolant flow sensor COOL-SEC-01 critically exceeded threshold'',
         isActive = True, al_timestamp = 4\<rparr>]
   \<and> \<not> one_active_per_sensor (aw_alerts (run_alerts \<lparr>aw_alerts = [], aw_serial = 0, aw_pending = []\<rparr>
      [Evaluate 7 (1 / 2), Evaluate 7 (1 / 4), Resume 0 1, Resume 1 2, Resume 0 3, Resume 0 4]))"
proof -
  have a: "aw_alerts (run_alerts \<lparr>aw_alerts = [], aw_serial = 0, aw_pending = []\<rparr>
      [Evaluate 7 (1 / 2), Evaluate 7 (1 / 4), Resume 0 1, Resume 1 2, Resume 0 3, Resume 0 4])
     = [\<lparr>al_id = 1, sensorNodeId = ''COOL-SEC-01'', alertType = ''critical'',
         message = ''coolant flow sensor COOL-SEC-01 critically exceeded threshold'',
         isActive = True, al_timestamp = 3\<rparr>,
        \<lparr>al_id = 2, sensorNodeId = ''COOL-SEC-01'', alertType = ''critical'',
         message = ''coolant flow sensor COOL-SEC-01 critically exceeded threshold'',
         isActive = True, al_timestamp = 4\<rparr>]"
    by (simp add: run_alerts_def evaluate_at_half evaluate_at_quarter coolant_configs mk_config_def
        getActiveAlerts_def hasActiveAlert_def createAlert_def Let_def
        drop_nth_def alert_message_def
        del: alert_step.simps(1))
  show ?thesis
    by (simp only: a) (simp add: one_active_per_sensor_def)
qed

section \<open>The first message of an observer\<close>

lemma outbox_send: "outbox (send ws' m s) ws = (if ws = ws' then outbox s ws @ [m] else outbox s ws)"
  by (simp add: send_def)

lemma send_fields [simp]:
  "readyState (send ws' m s) = readyState s" "handshakes (send ws' m s) = handshakes s"
  "store (send ws' m s) = store s" "clients (send ws' m s) = clients s"
  by (simp_all add: send_def)

lemma broadcast_fold_grows:
  "\<exists>ys. outbox (foldl (\<lambda>s' client. if readyState s' client = OPEN then send client (Update u) s' else s')
       s cs) ws = outbox s ws @ ys"
proof (induction cs arbitrary: s)
  case Nil
  show ?case by simp
next
  case (Cons c cs)
  let ?s = "if readyState s c = OPEN then send c (Update u) s else s"
  from Cons.IH [of ?s] obtain ys where
    "outbox (foldl (\<lambda>s' client. if readyState s' client = OPEN then send client (Update u) s' else s')
       ?s cs) ws = outbox ?s ws @ ys" by blast
  moreover have "\<exists>zs. outbox ?s ws = outbox s ws @ zs"
    by (simp add: outbox_send)
  ultimately show ?case by auto
qed

lemma resume_grows: "\<exists>ys. outbox (sendLatestData_resume ws' h s) ws = outbox s ws @ ys"
  by (cases h) (simp_all add: Let_def outbox_send)

lemma step_grows: "\<exists>ys. outbox (fanout_step s e) ws = outbox s ws @ ys"
proof (cases e)
  case (Broadcast u)
  then show ?thesis using broadcast_fold_grows by (simp add: broadcast_def)
next
  case (Handshake_resume ws')
  then show ?thesis using resume_grows by (simp split: option.splits)
qed simp_all

lemma run_grows: "\<exists>ys. outbox (run_fanout s es) ws = outbox s ws @ ys"
proof (induction es arbitrary: s)
  case Nil
  show ?case by (simp add: run_fanout_def)
next
  case (Cons e es)
  from Cons.IH [of "fanout_step s e"] obtain ys where
    "outbox (run_fanout (fanout_step s e) es) ws = outbox (fanout_step s e) ws @ ys" by blast
  moreover obtain zs where "outbox (fanout_step s e) ws = outbox s ws @ zs"
    using step_grows by blast
  ultimately show ?case by (simp add: run_fanout_def)
qed

lemma run_fanout_append: "run_fanout s (xs @ ys) = run_fanout (run_fanout s xs) ys"
  by (simp add: run_fanout_def)

lemma run_fanout_Cons: "run_fanout s (e # es) = run_fanout (fanout_step s e) es"
  by (simp add: run_fanout_def)

lemma resume_other:
  "ws' \<noteq> ws \<Longrightarrow> outbox (sendLatestData_resume ws' h s) ws = outbox s ws
     \<and> handshakes (sendLatestData_resume ws' h s) ws = handshakes s ws
     \<and> readyState (sendLatestData_resume ws' h s) = readyState s
     \<and> store (sendLatestData_resume ws' h s) = store s"
  by (cases h) (simp_all add: Let_def outbox_send)

lemma quiet_step:
  assumes "quiet ws e" "e \<noteq> Handshake_resume ws"
  shows "outbox (fanout_step s e) ws = outbox s ws
     \<and> handshakes (fanout_step s e) ws = handshakes s ws
     \<and> readyState (fanout_step s e) ws = readyState s ws
     \<and> (\<not> is_Commit e \<longrightarrow> store (fanout_step s e) = store s)"
proof (cases e)
  case (Handshake_resume ws')
  then have "ws' \<noteq> ws" using assms(2) by simp
  then show ?thesis using Handshake_resume resume_other [of ws' ws] by (simp split: option.splits)
qed (use assms in simp_all)

lemma quiet_run_done:
  assumes "\<forall>e\<in>set es. quiet ws e" "filter (\<lambda>e. e = Handshake_resume ws) es = []"
  shows "outbox (run_fanout s es) ws = outbox s ws"
  using assms
proof (induction es arbitrary: s)
  case Nil
  show ?case by (simp add: run_fanout_def)
next
  case (Cons e es)
  then have e: "quiet ws e" "e \<noteq> Handshake_resume ws" by (auto split: if_splits)
  have "outbox (run_fanout (fanout_step s e) es) ws = outbox (fanout_step s e) ws"
    using Cons by (auto split: if_splits)
  then show ?case using quiet_step [OF e] by (simp add: run_fanout_Cons)
qed

lemma resume_own:
  assumes "handshakes s ws = Some h" "readyState s ws = OPEN" "outbox s ws = []"
  shows "(stage h < 4 \<longrightarrow> (\<exists>h'. handshakes (fanout_step s (Handshake_resume ws)) ws = Some h'
            \<and> stage h' = Suc (stage h)
            \<and> (consistent (store s) h \<longrightarrow> consistent (store s) h')
            \<and> outbox (fanout_step s (Handshake_resume ws)) ws = []))
      \<and> (stage h = 4 \<longrightarrow> (\<exists>snap. outbox (fanout_step s (Handshake_resume ws)) ws = [Initial_data snap]
            \<and> (consistent (store s) h \<longrightarrow> snap = full_snapshot (store s))))
      \<and> readyState (fanout_step s (Handshake_resume ws)) ws = OPEN
      \<and> store (fanout_step s (Handshake_resume ws)) = store s"
  using assms by (cases h) (simp_all add: Let_def outbox_send full_snapshot_def)

lemma handshake_progress:
  assumes "handshakes s ws = Some h" "readyState s ws = OPEN" "outbox s ws = []"
    "\<forall>e\<in>set es. quiet ws e"
    "length (filter (\<lambda>e. e = Handshake_resume ws) es) + stage h = 5"
  shows "\<exists>snap. outbox (run_fanout s es) ws = [Initial_data snap]
      \<and> (consistent (store s) h \<and> \<not> list_ex is_Commit es \<longrightarrow> snap = full_snapshot (store s))"
  using assms
proof (induction es arbitrary: s h)
  case Nil
  have "stage h \<le> 4" by (cases h) simp_all
  with Nil show ?case by simp
next
  case (Cons e es)
  show ?case
  proof (cases "e = Handshake_resume ws")
    case True
    note own = resume_own [OF Cons.prems(1,2,3)]
    show ?thesis
    proof (cases "stage h = 4")
      case last: True
      from own last obtain snap where
        snap: "outbox (fanout_step s e) ws = [Initial_data snap]"
          "consistent (store s) h \<longrightarrow> snap = full_snapshot (store s)"
        using True by blast
      have rest: "filter (\<lambda>e. e = Handshake_resume ws) es = []"
        using Cons.prems(5) True last by simp
      have "outbox (run_fanout (fanout_step s e) es) ws = outbox (fanout_step s e) ws"
        using Cons.prems(4) rest by (intro quiet_run_done) auto
      then show ?thesis using snap by (auto simp add: run_fanout_Cons)
    next
      case False
      have "stage h \<le> 4" by (cases h) simp_all
      then have lt: "stage h < 4" using False by simp
      from own lt True obtain h' where
        h': "handshakes (fanout_step s e) ws = Some h'" "stage h' = Suc (stage h)"
          "consistent (store s) h \<longrightarrow> consistent (store s) h'"
          "outbox (fanout_step s e) ws = []"
        by blast
      have r: "readyState (fanout_step s e) ws = OPEN" "store (fanout_step s e) = store s"
        using own True by simp_all
      have cnt: "length (filter (\<lambda>e. e = Handshake_resume ws) es) + stage h' = 5"
        using Cons.prems(5) True h'(2) by simp
      have q: "\<forall>e\<in>set es. quiet ws e" using Cons.prems(4) by simp
      from Cons.IH [OF h'(1) r(1) h'(4) q cnt] obtain snap where
        "outbox (run_fanout (fanout_step s e) es) ws = [Initial_data snap]"
        "consistent (store (fanout_step s e)) h' \<and> \<not> list_ex is_Commit es
           \<longrightarrow> snap = full_snapshot (store (fanout_step s e))"
        by blast
      then show ?thesis using h'(3) r(2) by (auto simp add: run_fanout_Cons)
    qed
  next
    case False
    have qe: "quiet ws e" using Cons.prems(4) by simp
    note st = quiet_step [OF qe False, of s]
    have cnt: "length (filter (\<lambda>e. e = Handshake_resume ws) es) + stage h = 5"
      using Cons.prems(5) False by simp
    have q: "\<forall>e\<in>set es. quiet ws e" using Cons.prems(4) by simp
    have 1: "handshakes (fanout_step s e) ws = Some h" using st Cons.prems(1) by simp
    have 2: "readyState (fanout_step s e) ws = OPEN" using st Cons.prems(2) by simp
    have 3: "outbox (fanout_step s e) ws = []" using st Cons.prems(3) by simp
    from Cons.IH [OF 1 2 3 q cnt] obtain snap where
      "outbox (run_fanout (fanout_step s e) es) ws = [Initial_data snap]"
      "consistent (store (fanout_step s e)) h \<and> \<not> list_ex is_Commit es
         \<longrightarrow> snap = full_snapshot (store (fanout_step s e))"
      by blast
    then show ?thesis using st by (auto simp add: run_fanout_Cons)
  qed
qed


text \<open>
  C3, as the code has it. \<open>sendLatestData\<close> sends one \<open>initial_data\<close> event with the
  five parts of the snapshot after its fifth storage read, when the socket is open. The
  socket is in \<open>clients\<close> from the connection on, so the event is the first message of
  the observer when no broadcast is made during the handshake: for a socket with nothing
  sent yet, whose handshake completes its five reads among events that hold no
  broadcast and, for this socket, no closing and no failed read, the messages sent are
  then exactly that \<open>initial_data\<close>, it stays the first message whatever follows, and
  when the storage does not change during the handshake it is the snapshot of the
  storage at the connection.
\<close>

theorem handshake_first_message:
  assumes "outbox s ws = []" "\<forall>e\<in>set es. quiet ws e"
    "length (filter (\<lambda>e. e = Handshake_resume ws) es) = 5"
  shows "\<exists>snap. outbox (run_fanout s (Connection ws # es)) ws = [Initial_data snap]
     \<and> (\<forall>post. hd (outbox (run_fanout s (Connection ws # es @ post)) ws) = Initial_data snap)
     \<and> (\<not> list_ex is_Commit es \<longrightarrow> snap = full_snapshot (store s))"
proof -
  let ?s = "fanout_step s (Connection ws)"
  have 1: "handshakes ?s ws = Some Await_sensorData" by simp
  have 2: "readyState ?s ws = OPEN" by simp
  have 3: "outbox ?s ws = []" using assms(1) by simp
  have 5: "length (filter (\<lambda>e. e = Handshake_resume ws) es) + stage Await_sensorData = 5"
    using assms(3) by simp
  from handshake_progress [OF 1 2 3 assms(2) 5] obtain snap where
    a: "outbox (run_fanout ?s es) ws = [Initial_data snap]"
    and b: "\<not> list_ex is_Commit es \<longrightarrow> snap = full_snapshot (store s)"
    by auto
  have c: "\<forall>post. hd (outbox (run_fanout s (Connection ws # es @ post)) ws) = Initial_data snap"
  proof
    fix post
    obtain ys where "outbox (run_fanout (run_fanout ?s es) post) ws = outbox (run_fanout ?s es) ws @ ys"
      using run_grows by blast
    then show "hd (outbox (run_fanout s (Connection ws # es @ post)) ws) = Initial_data snap"
      using a by (simp add: run_fanout_Cons run_fanout_append)
  qed
  from a b c show ?thesis by (auto simp add: run_fanout_Cons)
qed


theorem handshake_first_message_witness:
  "outbox (run_fanout (fanout_init sample_storage)
       (Connection 1 # [Handshake_resume 1, Connection 2, Handshake_resume 1, Handshake_resume 2,
          Handshake_resume 1, Closed 2, Handshake_resume 1, Handshake_resume 1])) 1
     = [Initial_data (full_snapshot sample_storage)]
   \<and> hd (outbox (run_fanout (fanout_init sample_storage)
       (Connection 1 # [Handshake_resume 1, Connection 2, Handshake_resume 1, Handshake_resume 2,
          Handshake_resume 1, Closed 2, Handshake_resume 1, Handshake_resume 1]
        @ [Broadcast (Sensor_update (sample_row ''A'' 7 6 30))])) 1)
     = Initial_data (full_snapshot sample_storage)"
proof -
  let ?es = "[Handshake_resume 1, Connection 2, Handshake_resume 1, Handshake_resume 2,
          Handshake_resume 1, Closed 2, Handshake_resume 1, Handshake_resume 1]"
  have o: "outbox (fanout_init sample_storage) 1 = []"
    by (simp add: fanout_init_def)
  have q: "\<forall>e\<in>set ?es. quiet 1 e"
    by simp
  have n: "length (filter (\<lambda>e. e = Handshake_resume 1) ?es) = 5"
    by simp
  have c: "\<not> list_ex is_Commit ?es"
    by simp
  have s: "store (fanout_init sample_storage) = sample_storage"
    by (simp add: fanout_init_def)
  from handshake_first_message [OF o q n] c s show ?thesis
    by metis
qed

text \<open>
  The claim as written fails. The handler adds the socket to \<open>clients\<close> before it calls
  \<open>sendLatestData\<close>, which sends only after five suspensions: a reading broadcast
  during the handshake reaches the new observer first, and \<open>initial_data\<close> second.
\<close>

theorem broadcast_during_handshake_counterexample:
  "outbox (run_fanout (fanout_init sample_storage)
       [Connection 1, Handshake_resume 1, Broadcast (Sensor_update (sample_row ''A'' 7 6 30)),
        Handshake_resume 1, Handshake_resume 1, Handshake_resume 1, Handshake_resume 1]) 1
     = [Update (Sensor_update (sample_row ''A'' 7 6 30)), Initial_data (full_snapshot sample_storage)]
   \<and> hd (outbox (run_fanout (fanout_init sample_storage)
       [Connection 1, Handshake_resume 1, Broadcast (Sensor_update (sample_row ''A'' 7 6 30)),
        Handshake_resume 1, Handshake_resume 1, Handshake_resume 1, Handshake_resume 1]) 1)
     = Update (Sensor_update (sample_row ''A'' 7 6 30))"
  by (simp add: run_fanout_def fanout_init_def broadcast_def send_def full_snapshot_def Let_def)

section \<open>Starting a scenario while another is running\<close>

lemma perform_Create_alert:
  "perform (Create_alert a) now m = Inl (Not_null_violation ''sensor_node_id'')"
  by (simp add: createAlert_def read_by_createAlert_def)







end
